theory Spec2Isabelle
  imports Complex_Main
begin

section \<open>Numbers\<close>

text \<open>
  The timeouts, intervals and loop counters of the action are JavaScript numbers. They are
  modelled as exact rationals together with the three non-finite values that division and
  multiplication produce. The rounding of IEEE doubles and the sign of zero are not
  represented: every operation below is exact, and a zero is a positive zero.
\<close>

datatype jsnum = Num rat | Infinity | NegInfinity | NaN

fun js_div :: "jsnum \<Rightarrow> jsnum \<Rightarrow> jsnum" where
  "js_div NaN y = NaN"
| "js_div x NaN = NaN"
| "js_div (Num a) (Num b) =
     (if b = 0 then (if a = 0 then NaN else if 0 < a then Infinity else NegInfinity)
      else Num (a / b))"
| "js_div (Num a) y = Num 0"
| "js_div Infinity (Num b) = (if 0 \<le> b then Infinity else NegInfinity)"
| "js_div NegInfinity (Num b) = (if 0 \<le> b then NegInfinity else Infinity)"
| "js_div x y = NaN"

fun js_mul :: "jsnum \<Rightarrow> jsnum \<Rightarrow> jsnum" where
  "js_mul NaN y = NaN"
| "js_mul x NaN = NaN"
| "js_mul (Num a) (Num b) = Num (a * b)"
| "js_mul (Num a) Infinity = (if a = 0 then NaN else if 0 < a then Infinity else NegInfinity)"
| "js_mul (Num a) NegInfinity = (if a = 0 then NaN else if 0 < a then NegInfinity else Infinity)"
| "js_mul Infinity (Num b) = (if b = 0 then NaN else if 0 < b then Infinity else NegInfinity)"
| "js_mul NegInfinity (Num b) = (if b = 0 then NaN else if 0 < b then NegInfinity else Infinity)"
| "js_mul Infinity Infinity = Infinity"
| "js_mul Infinity NegInfinity = NegInfinity"
| "js_mul NegInfinity Infinity = NegInfinity"
| "js_mul NegInfinity NegInfinity = Infinity"

text \<open>\<^verbatim>\<open>Math.floor\<close>.\<close>

fun js_floor :: "jsnum \<Rightarrow> jsnum" where
  "js_floor (Num a) = Num (of_int \<lfloor>a\<rfloor>)"
| "js_floor x = x"

text \<open>The comparison \<^verbatim>\<open><\<close>: false as soon as one side is \<^verbatim>\<open>NaN\<close>.\<close>

fun js_lt :: "jsnum \<Rightarrow> jsnum \<Rightarrow> bool" where
  "js_lt (Num a) (Num b) = (a < b)"
| "js_lt (Num a) Infinity = True"
| "js_lt NegInfinity (Num b) = True"
| "js_lt NegInfinity Infinity = True"
| "js_lt x y = False"

text \<open>\<^verbatim>\<open>x || d\<close> on numbers: \<^verbatim>\<open>0\<close> and \<^verbatim>\<open>NaN\<close> are falsy.\<close>

definition js_or :: "jsnum \<Rightarrow> jsnum \<Rightarrow> jsnum" where
  "js_or x d = (if x = NaN \<or> x = Num 0 then d else x)"

text \<open>
  \<^verbatim>\<open>const calculateIterations = (maxTimeoutSec, checkIntervalInMilliseconds) =>
    Math.floor(maxTimeoutSec / (checkIntervalInMilliseconds / 1000));\<close>
\<close>

definition calculateIterations :: "jsnum \<Rightarrow> jsnum \<Rightarrow> jsnum" where
  "calculateIterations maxTimeoutSec checkIntervalInMilliseconds =
     js_floor (js_div maxTimeoutSec (js_div checkIntervalInMilliseconds (Num 1000)))"

section \<open>Data\<close>

text \<open>
  The objects the GitHub API returns, reduced to the fields the action reads. The field
  \<^verbatim>\<open>id\<close> of a deployment is \<open>dep_id\<close> here; \<^verbatim>\<open>creator\<close> is nullable.
\<close>

record creator =
  login :: string

record deployment =
  dep_id :: int
  creator :: "creator option"

datatype deployment_state =
  state_error | state_failure | state_inactive | state_pending | state_success
  | state_queued | state_in_progress

record deployment_status =
  state :: deployment_state
  target_url :: "string option"

record pull_response =
  pr_status :: int
  head_sha :: string

text \<open>
  An HTTP response as axios hands it over: the status code and the \<^verbatim>\<open>set-cookie\<close> header,
  which is absent or a list of header lines. A cookie is what \<^verbatim>\<open>set-cookie-parser\<close> makes of
  one line.
\<close>

record http_response =
  resp_status :: int
  resp_set_cookie :: "string list option"

record cookie =
  cookie_name :: string
  cookie_value :: string

text \<open>
  The request configuration given to axios. \<open>req_data\<close> holds the entries of the
  \<^verbatim>\<open>URLSearchParams\<close> whose \<^verbatim>\<open>toString()\<close> is the form-encoded body; \<open>req_maxRedirects\<close> is
  \<open>None\<close> where the source leaves the default.
\<close>

record http_request =
  req_method :: string
  req_url :: string
  req_data :: "(string \<times> string) list"
  req_headers :: "(string \<times> string) list"
  req_maxRedirects :: "nat option"

text \<open>Exceptions. Only \<open>AxiosError\<close> carries a response (\<^verbatim>\<open>e.response\<close>), when one was received.\<close>

datatype exn =
  JsError string
  | TypeError string
  | StatusError string
  | RequestError string
  | AxiosError "http_response option"

fun exn_message :: "exn \<Rightarrow> string" where
  "exn_message (JsError m) = m"
| "exn_message (TypeError m) = m"
| "exn_message (StatusError m) = m"
| "exn_message (RequestError m) = m"
| "exn_message (AxiosError r) = []"

section \<open>Effects and the outside world\<close>

text \<open>
  What a run does to the outside world is a trace of events, in order: the API calls, the
  HTTP requests, the outputs and failure messages reported through \<^verbatim>\<open>@actions/core\<close>, and
  the sleeps. Console output is not part of the trace.
\<close>

datatype event =
  ListDeployments string string string "string option"
  | ListDeploymentStatuses string string int
  | PullsGet string string nat
  | Request http_request
  | SetOutput string string
  | SetFailed string
  | Wait jsnum

text \<open>
  The outside world answers. Each waiter makes at most one call of a kind per attempt, so
  the answers to the polls are indexed by the attempt number \<open>i\<close> of the loop that asks.
  What the network sends back for a request is a \<open>reply\<close>; the two library functions the
  action calls on data, \<^verbatim>\<open>parse\<close> of \<^verbatim>\<open>set-cookie-parser\<close> and the \<^verbatim>\<open>URL\<close> constructor followed
  by \<^verbatim>\<open>toString()\<close>, are part of the world as well. A function of the action takes the
  fields of its options object as separate arguments, the world first, and returns the
  events it causes next to its result; a loop carries the trace so far.
\<close>

datatype reply = NoResponse | Response http_response

record world =
  listDeployments :: "nat \<Rightarrow> exn + deployment list"
  listDeploymentStatuses :: "nat \<Rightarrow> exn + deployment_status list"
  pulls_get :: "string \<Rightarrow> string \<Rightarrow> nat \<Rightarrow> exn + pull_response"
  post_reply :: "nat \<Rightarrow> reply"
  get_reply :: "nat \<Rightarrow> reply"
  parseCookies :: "string list \<Rightarrow> cookie list"
  new_URL :: "string \<Rightarrow> string \<Rightarrow> exn + string"

text \<open>
  axios resolves with the response when \<^verbatim>\<open>validateStatus\<close> accepts its status, and rejects
  with an \<^verbatim>\<open>AxiosError\<close> otherwise: one with \<^verbatim>\<open>e.response\<close> when the server answered, one
  without when it did not. The default \<^verbatim>\<open>validateStatus\<close> accepts the 2xx statuses.
\<close>

definition axios_settle :: "(int \<Rightarrow> bool) \<Rightarrow> reply \<Rightarrow> exn + http_response" where
  "axios_settle validateStatus r =
     (case r of
        NoResponse \<Rightarrow> Inl (AxiosError None)
      | Response response \<Rightarrow>
          if validateStatus (resp_status response) then Inr response
          else Inl (AxiosError (Some response)))"

definition axios_default_validateStatus :: "int \<Rightarrow> bool" where
  "axios_default_validateStatus status = (status \<ge> 200 \<and> status < 300)"

section \<open>The password exchange\<close>

text \<open>
  \<^verbatim>\<open>validateStatus: (status) => { return status >= 200 && status < 307; }\<close>
\<close>

definition getPassword_validateStatus :: "int \<Rightarrow> bool" where
  "getPassword_validateStatus status = (status \<ge> 200 \<and> status < 307)"

definition getPassword_request :: "string \<Rightarrow> string \<Rightarrow> http_request" where
  "getPassword_request url vercelPassword =
     \<lparr>req_method = ''post'', req_url = url,
      req_data = [(''_vercel_password'', vercelPassword)],
      req_headers = [(''content-type'', ''application/x-www-form-urlencoded'')],
      req_maxRedirects = Some 0\<rparr>"

text \<open>
  \<open>getPassword\<close> returns its result, the token or the exception thrown, and the events
  it caused. \<open>i\<close> is the attempt of the caller's loop, which selects the reply.
\<close>

definition getPassword :: "world \<Rightarrow> nat \<Rightarrow> string \<Rightarrow> string \<Rightarrow> (exn + string) \<times> event list" where
  "getPassword env i url vercelPassword =
     (let es = [Request (getPassword_request url vercelPassword)] in
      case axios_settle getPassword_validateStatus (post_reply env i) of
        Inl e \<Rightarrow> (Inl e, es)
      | Inr response \<Rightarrow>
          (case resp_set_cookie response of
             None \<Rightarrow> (Inl (JsError ''no vercel JWT in response''), es)
           | Some setCookieHeader \<Rightarrow>
               (case find (\<lambda>cookie. cookie_name cookie = ''_vercel_jwt'')
                       (parseCookies env setCookieHeader) of
                  None \<Rightarrow> (Inl (JsError ''no vercel JWT in response''), es)
                | Some vercelJwtCookie \<Rightarrow>
                    if cookie_value vercelJwtCookie = []
                    then (Inl (JsError ''no vercel JWT in response''), es)
                    else (Inr (cookie_value vercelJwtCookie), es))))"

section \<open>The URL health waiter\<close>

text \<open>
  The body of the \<^verbatim>\<open>try\<close> block of \<open>waitForUrl\<close>, for attempt \<open>i\<close>: its outcome (\<open>Inr ()\<close>
  when it reaches \<^verbatim>\<open>return\<close>, \<open>Inl e\<close> when \<open>e\<close> is thrown) and the events of the attempt.
\<close>

definition waitForUrl_try ::
  "world \<Rightarrow> nat \<Rightarrow> string \<Rightarrow> string option \<Rightarrow> string option \<Rightarrow> string
     \<Rightarrow> (exn + unit) \<times> event list" where
  "waitForUrl_try env i url vercelPassword protectionBypassHeader path =
     (case (case vercelPassword of
              None \<Rightarrow> (Inr [], [])
            | Some pw \<Rightarrow>
                if pw = [] then (Inr [], [])
                else (case getPassword env i url pw of
                        (Inl e, es) \<Rightarrow> (Inl e, es)
                      | (Inr jwt, es) \<Rightarrow>
                          (Inr [(''Cookie'', ''_vercel_jwt='' @ jwt)],
                           es @ [SetOutput ''vercel_jwt'' jwt]))) of
        (Inl e, es) \<Rightarrow> (Inl e, es)
      | (Inr headers1, es) \<Rightarrow>
          (let headers =
                 (case protectionBypassHeader of
                    None \<Rightarrow> headers1
                  | Some h \<Rightarrow>
                      if h = [] then headers1 else [(''x-vercel-protection-bypass'', h)])
           in case new_URL env path url of
                Inl e \<Rightarrow> (Inl e, es)
              | Inr checkUri \<Rightarrow>
                  (let es' = es @ [Request \<lparr>req_method = ''get'', req_url = checkUri,
                                     req_data = [], req_headers = headers,
                                     req_maxRedirects = None\<rparr>]
                   in case axios_settle axios_default_validateStatus (get_reply env i) of
                        Inl e \<Rightarrow> (Inl e, es')
                      | Inr response \<Rightarrow> (Inr (), es'))))"

text \<open>
  The loop \<^verbatim>\<open>for (let i = 0; i < iterations; i++)\<close> from counter \<open>i\<close> and trace \<open>t\<close> on. With
  \<open>iterations = Infinity\<close> it need not end: the value is then \<open>None\<close>.
\<close>

partial_function (option) waitForUrl_loop ::
  "world \<Rightarrow> string \<Rightarrow> jsnum \<Rightarrow> string option \<Rightarrow> string option \<Rightarrow> string \<Rightarrow> jsnum
     \<Rightarrow> nat \<Rightarrow> event list \<Rightarrow> event list option" where
  "waitForUrl_loop env url checkIntervalInMilliseconds vercelPassword protectionBypassHeader
       path iterations i t =
     (if js_lt (Num (of_nat i)) iterations then
        (case waitForUrl_try env i url vercelPassword protectionBypassHeader path of
           (Inr u, es) \<Rightarrow> Some (t @ es)
         | (Inl e, es) \<Rightarrow>
             waitForUrl_loop env url checkIntervalInMilliseconds vercelPassword
               protectionBypassHeader path iterations (i + 1)
               (t @ es @ [Wait checkIntervalInMilliseconds]))
      else Some (t @ [SetFailed (''Timeout reached: Unable to connect to '' @ url)]))"

declare waitForUrl_loop.simps [code]

definition waitForUrl ::
  "world \<Rightarrow> string \<Rightarrow> jsnum \<Rightarrow> jsnum \<Rightarrow> string option \<Rightarrow> string option \<Rightarrow> string
     \<Rightarrow> event list \<Rightarrow> event list option" where
  "waitForUrl env url maxTimeout checkIntervalInMilliseconds vercelPassword
       protectionBypassHeader path t =
     waitForUrl_loop env url checkIntervalInMilliseconds vercelPassword protectionBypassHeader
       path (calculateIterations maxTimeout checkIntervalInMilliseconds) 0 t"

section \<open>The deployment status waiter\<close>

text \<open>
  The body of the \<^verbatim>\<open>try\<close> block of \<open>waitForStatus\<close>. The checks come in the order of the
  source, the last \<^verbatim>\<open>throw\<close> included.
\<close>

definition waitForStatus_try ::
  "world \<Rightarrow> nat \<Rightarrow> string \<Rightarrow> string \<Rightarrow> int \<Rightarrow> bool
     \<Rightarrow> (exn + deployment_status) \<times> event list" where
  \<open>waitForStatus_try env i owner repo deployment_id allowInactive =
     (let es = [ListDeploymentStatuses owner repo deployment_id] in
      case listDeploymentStatuses env i of
        Inl e \<Rightarrow> (Inl e, es)
      | Inr statuses \<Rightarrow>
          (case statuses of
             [] \<Rightarrow> (Inl (StatusError ''No status was available''), es)
           | status # rest \<Rightarrow>
               if allowInactive = True \<and> state status = state_inactive then (Inr status, es)
               else if state status \<noteq> state_success
                 then (Inl (StatusError ''No status with state "success" was available''), es)
               else if state status = state_success then (Inr status, es)
               else (Inl (StatusError ''Unknown status error''), es)))\<close>

partial_function (option) waitForStatus_loop ::
  "world \<Rightarrow> string \<Rightarrow> string \<Rightarrow> int \<Rightarrow> bool \<Rightarrow> jsnum \<Rightarrow> jsnum \<Rightarrow> nat \<Rightarrow> event list
     \<Rightarrow> (deployment_status option \<times> event list) option" where
  "waitForStatus_loop env owner repo deployment_id allowInactive checkIntervalInMilliseconds
       iterations i t =
     (if js_lt (Num (of_nat i)) iterations then
        (case waitForStatus_try env i owner repo deployment_id allowInactive of
           (Inr status, es) \<Rightarrow> Some (Some status, t @ es)
         | (Inl e, es) \<Rightarrow>
             waitForStatus_loop env owner repo deployment_id allowInactive
               checkIntervalInMilliseconds iterations (i + 1)
               (t @ es @ [Wait checkIntervalInMilliseconds]))
      else Some (None,
             t @ [SetFailed
                    ''Timeout reached: Unable to wait for an deployment to be successful'']))"

declare waitForStatus_loop.simps [code]

text \<open>The result is the status returned, or \<open>None\<close> for \<^verbatim>\<open>undefined\<close> after the timeout.\<close>

definition waitForStatus ::
  "world \<Rightarrow> string \<Rightarrow> string \<Rightarrow> int \<Rightarrow> jsnum \<Rightarrow> bool \<Rightarrow> jsnum \<Rightarrow> event list
     \<Rightarrow> (deployment_status option \<times> event list) option" where
  "waitForStatus env owner repo deployment_id maxTimeout allowInactive
       checkIntervalInMilliseconds t =
     waitForStatus_loop env owner repo deployment_id allowInactive checkIntervalInMilliseconds
       (calculateIterations maxTimeout checkIntervalInMilliseconds) 0 t"

section \<open>The deployment start waiter\<close>

text \<open>
  The body of the \<^verbatim>\<open>try\<close> block of \<open>waitForDeploymentToStart\<close>: \<open>Inr (Some d)\<close> when it
  returns \<open>d\<close>, \<open>Inr None\<close> when it falls through to the sleep, \<open>Inl e\<close> when the request
  throws. \<^verbatim>\<open>deployment.creator?.login === actorName\<close> is false for a null creator.
\<close>

definition waitForDeploymentToStart_try ::
  "world \<Rightarrow> nat \<Rightarrow> string \<Rightarrow> string \<Rightarrow> string \<Rightarrow> string option \<Rightarrow> string
     \<Rightarrow> (exn + deployment option) \<times> event list" where
  "waitForDeploymentToStart_try env i owner repo sha environment actorName =
     (let es = [ListDeployments owner repo sha environment] in
      case listDeployments env i of
        Inl e \<Rightarrow> (Inl e, es)
      | Inr deployments \<Rightarrow>
          (if length deployments > 0
           then (Inr (find (\<lambda>deployment. map_option login (creator deployment) = Some actorName)
                        deployments), es)
           else (Inr None, es)))"

partial_function (option) waitForDeploymentToStart_loop ::
  "world \<Rightarrow> string \<Rightarrow> string \<Rightarrow> string \<Rightarrow> string option \<Rightarrow> string \<Rightarrow> jsnum \<Rightarrow> jsnum
     \<Rightarrow> nat \<Rightarrow> event list \<Rightarrow> (deployment option \<times> event list) option" where
  "waitForDeploymentToStart_loop env owner repo sha environment actorName
       checkIntervalInMilliseconds iterations i t =
     (if js_lt (Num (of_nat i)) iterations then
        (case waitForDeploymentToStart_try env i owner repo sha environment actorName of
           (Inr (Some deployment), es) \<Rightarrow> Some (Some deployment, t @ es)
         | (r, es) \<Rightarrow>
             waitForDeploymentToStart_loop env owner repo sha environment actorName
               checkIntervalInMilliseconds iterations (i + 1)
               (t @ es @ [Wait checkIntervalInMilliseconds]))
      else Some (None, t))"

declare waitForDeploymentToStart_loop.simps [code]

text \<open>
  The parameters \<^verbatim>\<open>actorName = 'vercel[bot]'\<close>, \<^verbatim>\<open>maxTimeout = 20\<close> and
  \<^verbatim>\<open>checkIntervalInMilliseconds = 2000\<close> have defaults, taken when the caller leaves them
  undefined. The result is the deployment, or \<open>None\<close> for \<^verbatim>\<open>null\<close>.
\<close>

definition waitForDeploymentToStart ::
  "world \<Rightarrow> string \<Rightarrow> string \<Rightarrow> string \<Rightarrow> string option \<Rightarrow> string option \<Rightarrow> jsnum option
     \<Rightarrow> jsnum option \<Rightarrow> event list \<Rightarrow> (deployment option \<times> event list) option" where
  "waitForDeploymentToStart env owner repo sha environment actorName maxTimeout
       checkIntervalInMilliseconds t =
     (let actorName' = (case actorName of None \<Rightarrow> ''vercel[bot]'' | Some a \<Rightarrow> a);
          maxTimeout' = (case maxTimeout of None \<Rightarrow> Num 20 | Some m \<Rightarrow> m);
          checkIntervalInMilliseconds' =
            (case checkIntervalInMilliseconds of None \<Rightarrow> Num 2000 | Some c \<Rightarrow> c)
      in waitForDeploymentToStart_loop env owner repo sha environment actorName'
           checkIntervalInMilliseconds'
           (calculateIterations maxTimeout' checkIntervalInMilliseconds') 0 t)"

section \<open>Resolving the commit of a pull request\<close>

text \<open>
  The part of \<^verbatim>\<open>github.context\<close> the action reads: \<^verbatim>\<open>payload.pull_request\<close> (absent on other
  events) with its \<^verbatim>\<open>number\<close>, \<^verbatim>\<open>sha\<close>, and \<^verbatim>\<open>repo.owner\<close> and \<^verbatim>\<open>repo.repo\<close>.
\<close>

record pull_request =
  pr_number :: nat

record github_context =
  ctx_pull_request :: "pull_request option"
  ctx_sha :: string
  ctx_owner :: string
  ctx_repo :: string

text \<open>
  The result is the SHA, \<open>None\<close> for the \<^verbatim>\<open>undefined\<close> of the two early returns, or the
  exception of \<^verbatim>\<open>pulls.get\<close>. \<^verbatim>\<open>!PR_NUMBER\<close> holds for a missing number and for \<open>0\<close>.
\<close>

definition getShaForPullRequest ::
  "github_context \<Rightarrow> world \<Rightarrow> string \<Rightarrow> string \<Rightarrow> nat \<Rightarrow> (exn + string option) \<times> event list" where
  "getShaForPullRequest ctx env owner repo number =
     (case map_option pr_number (ctx_pull_request ctx) of
        None \<Rightarrow> (Inr None, [SetFailed ''No pull request number was found''])
      | Some PR_NUMBER \<Rightarrow>
          if PR_NUMBER = 0 then (Inr None, [SetFailed ''No pull request number was found''])
          else (case pulls_get env owner repo PR_NUMBER of
                  Inl e \<Rightarrow> (Inl e, [PullsGet owner repo PR_NUMBER])
                | Inr currentPR \<Rightarrow>
                    if pr_status currentPR \<noteq> 200
                    then (Inr None,
                          [PullsGet owner repo PR_NUMBER,
                           SetFailed
                             ''Could not get information about the current pull request''])
                    else (Inr (Some (head_sha currentPR)), [PullsGet owner repo PR_NUMBER])))"

section \<open>The run\<close>

text \<open>
  The inputs as \<open>run\<close> obtains them from \<^verbatim>\<open>@actions/core\<close>: the strings of \<^verbatim>\<open>getInput\<close>
  (empty when an input is not given), the outcome of \<^verbatim>\<open>getInput('token', { required: true })\<close>
  and of \<^verbatim>\<open>getBooleanInput('allow_inactive')\<close>, which may throw, and for the two numeric
  inputs the value of \<^verbatim>\<open>Number(core.getInput(...))\<close>.
\<close>

record inputs =
  input_token :: "exn + string"
  input_vercel_password :: string
  input_vercel_protection_bypass_header :: string
  input_environment :: string
  input_max_timeout :: jsnum
  input_allow_inactive :: "exn + bool"
  input_path :: string
  input_check_interval :: jsnum

text \<open>
  \<open>run\<close> yields the trace of the whole run, or \<open>None\<close> when a waiter never ends. An
  exception that reaches the \<^verbatim>\<open>catch\<close> of \<open>run\<close> ends the run with its message as the
  failure; the waiters catch their own exceptions, so only the reading of the inputs and
  \<^verbatim>\<open>pulls.get\<close> can throw that far. \<^verbatim>\<open>status?.target_url\<close> is undefined when the status is.
  The construction of the API client and the getter \<^verbatim>\<open>context.repo\<close> are taken to succeed.
\<close>

definition run :: "github_context \<Rightarrow> inputs \<Rightarrow> world \<Rightarrow> event list option" where
  \<open>run ctx inp env =
     (case input_token inp of
        Inl e \<Rightarrow> Some [SetFailed (exn_message e)]
      | Inr GITHUB_TOKEN \<Rightarrow>
          (let VERCEL_PASSWORD = input_vercel_password inp;
               VERCEL_PROTECTION_BYPASS_HEADER = input_vercel_protection_bypass_header inp;
               ENVIRONMENT = input_environment inp;
               MAX_TIMEOUT = js_or (input_max_timeout inp) (Num 60)
           in case input_allow_inactive inp of
                Inl e \<Rightarrow> Some [SetFailed (exn_message e)]
              | Inr ALLOW_INACTIVE \<Rightarrow>
                  (let PATH = (if input_path inp = [] then ''/'' else input_path inp);
                       CHECK_INTERVAL_IN_MS =
                         js_mul (js_or (input_check_interval inp) (Num 2)) (Num 1000)
                   in if GITHUB_TOKEN = []
                      then Some [SetFailed ''Required field `token` was not provided'']
                      else
                        (let owner = ctx_owner ctx; repo = ctx_repo ctx
                         in case (case ctx_pull_request ctx of
                                    Some pr \<Rightarrow>
                                      getShaForPullRequest ctx env owner repo (pr_number pr)
                                  | None \<Rightarrow>
                                      if ctx_sha ctx \<noteq> [] then (Inr (Some (ctx_sha ctx)), [])
                                      else (Inr None, [])) of
                              (Inl e, es) \<Rightarrow> Some (es @ [SetFailed (exn_message e)])
                            | (Inr None, es) \<Rightarrow>
                                Some (es @ [SetFailed ''Unable to determine SHA. Exiting...''])
                            | (Inr (Some sha), es) \<Rightarrow>
                                if sha = []
                                then Some (es @ [SetFailed ''Unable to determine SHA. Exiting...''])
                                else
                                  Option.bind
                                    (waitForDeploymentToStart env owner repo sha
                                       (Some ENVIRONMENT) (Some ''vercel[bot]'')
                                       (Some MAX_TIMEOUT) (Some CHECK_INTERVAL_IN_MS) es)
                                    (\<lambda>(deployment, t1).
                                       case deployment of
                                         None \<Rightarrow>
                                           Some (t1 @ [SetFailed
                                                   ''no vercel deployment found, exiting...''])
                                       | Some d \<Rightarrow>
                                           Option.bind
                                             (waitForStatus env owner repo (dep_id d)
                                                MAX_TIMEOUT ALLOW_INACTIVE
                                                CHECK_INTERVAL_IN_MS t1)
                                             (\<lambda>(status, t2).
                                                case Option.bind status target_url of
                                                  None \<Rightarrow>
                                                    Some (t2 @ [SetFailed
                                                      ''no target_url found in the status check''])
                                                | Some targetUrl \<Rightarrow>
                                                    if targetUrl = []
                                                    then Some (t2 @ [SetFailed
                                                      ''no target_url found in the status check''])
                                                    else
                                                      waitForUrl env targetUrl MAX_TIMEOUT
                                                        CHECK_INTERVAL_IN_MS
                                                        (Some VERCEL_PASSWORD)
                                                        (Some VERCEL_PROTECTION_BYPASS_HEADER)
                                                        PATH
                                                        (t2 @ [SetOutput ''url'' targetUrl])))))))\<close>

section \<open>The conditions the specification names\<close>

text \<open>
  These predicates are written from the specification, not from the code. A poll of the
  status list is terminal-positive when it did not throw, the list is not empty, and its
  first (newest) status is \<open>success\<close>, or \<open>inactive\<close> while \<open>allowInactive\<close> holds.
\<close>

definition terminal_positive :: "bool \<Rightarrow> exn + deployment_status list \<Rightarrow> bool" where
  "terminal_positive allowInactive r =
     (case r of
        Inl e \<Rightarrow> False
      | Inr [] \<Rightarrow> False
      | Inr (s # rest) \<Rightarrow> state s = state_success \<or> (state s = state_inactive \<and> allowInactive))"

text \<open>
  A deployment is created by an actor when it has a creator and the creator's login is the
  actor's name; a poll of the deployment list has a match when it did not throw and some
  entry of the list is created by the actor.
\<close>

definition created_by :: "string \<Rightarrow> deployment \<Rightarrow> bool" where
  "created_by actorName d =
     (case creator d of None \<Rightarrow> False | Some c \<Rightarrow> login c = actorName)"

definition has_match :: "string \<Rightarrow> exn + deployment list \<Rightarrow> bool" where
  "has_match actorName r =
     (case r of Inl e \<Rightarrow> False | Inr ds \<Rightarrow> \<exists>d \<in> set ds. created_by actorName d)"



text \<open>
  The response to a password exchange lacks the token when its status is accepted and it
  has no \<^verbatim>\<open>Set-Cookie\<close> header, or none of its cookies is named \<^verbatim>\<open>_vercel_jwt\<close>, or the
  first cookie of that name has an empty value.
\<close>

definition lacks_jwt :: "world \<Rightarrow> reply \<Rightarrow> bool" where
  "lacks_jwt env r =
     (case r of
        NoResponse \<Rightarrow> False
      | Response response \<Rightarrow>
          200 \<le> resp_status response \<and> resp_status response < 307
          \<and> (case resp_set_cookie response of
                None \<Rightarrow> True
              | Some ls \<Rightarrow>
                  (case filter (\<lambda>c. cookie_name c = ''_vercel_jwt'') (parseCookies env ls) of
                     [] \<Rightarrow> True
                   | c # cs \<Rightarrow> cookie_value c = [])))"

text \<open>The events by kind: a poll of the status list, a password exchange, any HTTP request.\<close>

fun is_status_poll :: "event \<Rightarrow> bool" where
  "is_status_poll (ListDeploymentStatuses owner repo deployment_id) = True"
| "is_status_poll e = False"

fun is_exchange :: "event \<Rightarrow> bool" where
  "is_exchange (Request r) = (req_method r = ''post'')"
| "is_exchange e = False"

fun is_request :: "event \<Rightarrow> bool" where
  "is_request (Request r) = True"
| "is_request e = False"

section \<open>Sample worlds\<close>

text \<open>
  Concrete worlds on which the theorems below are instantiated. \<open>script xs d\<close> answers
  attempt \<open>i\<close> with the \<open>i\<close>-th element of \<open>xs\<close>, and with \<open>d\<close> once \<open>xs\<close> is used up.
  \<open>split_cookie\<close> reads the name and the value of a cookie off a \<^verbatim>\<open>Set-Cookie\<close> line: the
  text before the first \<^verbatim>\<open>;\<close>, cut at its first \<^verbatim>\<open>=\<close>.
\<close>

definition script :: "'a list \<Rightarrow> 'a \<Rightarrow> nat \<Rightarrow> 'a" where
  "script xs d i = (if i < length xs then xs ! i else d)"

definition split_cookie :: "string \<Rightarrow> cookie" where
  "split_cookie line =
     (let pair = takeWhile (\<lambda>c. c \<noteq> CHR '';'') line
      in \<lparr>cookie_name = takeWhile (\<lambda>c. c \<noteq> CHR ''='') pair,
          cookie_value = drop 1 (dropWhile (\<lambda>c. c \<noteq> CHR ''='') pair)\<rparr>)"

definition quiet_world :: world where
  "quiet_world =
     \<lparr>listDeployments = (\<lambda>i. Inr []),
      listDeploymentStatuses = (\<lambda>i. Inr []),
      pulls_get = (\<lambda>owner repo n. Inl (RequestError ''Not Found'')),
      post_reply = (\<lambda>i. NoResponse),
      get_reply = (\<lambda>i. NoResponse),
      parseCookies = map split_cookie,
      new_URL = (\<lambda>path url. Inr (url @ path))\<rparr>"

definition status_of :: "deployment_state \<Rightarrow> deployment_status" where
  "status_of s = \<lparr>state = s, target_url = Some ''https://preview.example.com''\<rparr>"

definition http :: "int \<Rightarrow> reply" where
  "http code = Response \<lparr>resp_status = code, resp_set_cookie = None\<rparr>"

definition http_cookie :: "int \<Rightarrow> string list \<Rightarrow> reply" where
  "http_cookie code lines = Response \<lparr>resp_status = code, resp_set_cookie = Some lines\<rparr>"

definition status_world :: "deployment_state list \<Rightarrow> deployment_state \<Rightarrow> world" where
  "status_world xs d =
     quiet_world\<lparr>listDeploymentStatuses := (\<lambda>i. Inr [status_of (script xs d i)])\<rparr>"

definition deployment_by :: "int \<Rightarrow> string \<Rightarrow> deployment" where
  "deployment_by n who = \<lparr>dep_id = n, creator = Some \<lparr>login = who\<rparr>\<rparr>"

definition start_world :: "(exn + deployment list) list \<Rightarrow> exn + deployment list \<Rightarrow> world" where
  "start_world xs d = quiet_world\<lparr>listDeployments := script xs d\<rparr>"

definition url_world :: "reply list \<Rightarrow> reply \<Rightarrow> reply list \<Rightarrow> reply \<Rightarrow> world" where
  "url_world posts p gets g = quiet_world\<lparr>post_reply := script posts p, get_reply := script gets g\<rparr>"

definition get_request :: "string \<Rightarrow> (string \<times> string) list \<Rightarrow> http_request" where
  "get_request checkUri hs =
     \<lparr>req_method = ''get'', req_url = checkUri, req_data = [], req_headers = hs,
      req_maxRedirects = None\<rparr>"

text \<open>
  A run on a push event for commit \<open>abc\<close>, with a timeout of four seconds and the default
  interval, against a world in which the deployment of \<^verbatim>\<open>vercel[bot]\<close> exists and has
  succeeded.
\<close>

definition push_context :: github_context where
  "push_context =
     \<lparr>ctx_pull_request = None, ctx_sha = ''abc'', ctx_owner = ''o'', ctx_repo = ''r''\<rparr>"

definition pr_context :: "nat \<Rightarrow> github_context" where
  "pr_context n =
     \<lparr>ctx_pull_request = Some \<lparr>pr_number = n\<rparr>, ctx_sha = ''merge'', ctx_owner = ''o'',
      ctx_repo = ''r''\<rparr>"

definition short_inputs :: "string \<Rightarrow> string \<Rightarrow> inputs" where
  "short_inputs pw bypass =
     \<lparr>input_token = Inr ''t'', input_vercel_password = pw,
      input_vercel_protection_bypass_header = bypass, input_environment = [],
      input_max_timeout = Num 4, input_allow_inactive = Inr False, input_path = [],
      input_check_interval = Num 0\<rparr>"

definition preview_world :: "reply \<Rightarrow> reply list \<Rightarrow> reply \<Rightarrow> world" where
  "preview_world p gets g =
     quiet_world
       \<lparr>listDeployments := (\<lambda>i. Inr [deployment_by 1 ''vercel[bot]'']),
        listDeploymentStatuses := (\<lambda>i. Inr [status_of state_success]),
        post_reply := (\<lambda>i. p),
        get_reply := script gets g\<rparr>"

definition pulls_world :: "(nat \<Rightarrow> exn + pull_response) \<Rightarrow> world" where
  "pulls_world f = quiet_world\<lparr>pulls_get := (\<lambda>owner repo. f)\<rparr>"

text \<open>
  The trace of a run with the password \<open>secret\<close> whose first health check is answered with
  500 and whose second with 200, without a bypass header and with the bypass header \<open>byp\<close>.
\<close>

definition retried_run_trace :: "(string \<times> string) list \<Rightarrow> event list" where
  "retried_run_trace hs =
     [ListDeployments ''o'' ''r'' ''abc'' (Some []),
      ListDeploymentStatuses ''o'' ''r'' 1,
      SetOutput ''url'' ''https://preview.example.com'',
      Request (getPassword_request ''https://preview.example.com'' ''secret''),
      SetOutput ''vercel_jwt'' ''abc123'',
      Request (get_request ''https://preview.example.com/'' hs),
      Wait (Num 2000),
      Request (getPassword_request ''https://preview.example.com'' ''secret''),
      SetOutput ''vercel_jwt'' ''abc123'',
      Request (get_request ''https://preview.example.com/'' hs)]"

section \<open>The retry budget\<close>

lemma js_lt_nat_mono:
  "js_lt (Num (of_nat k)) its \<Longrightarrow> j \<le> k \<Longrightarrow> js_lt (Num (of_nat j)) its"
  by (cases its) auto

lemma js_lt_of_int_iff: "js_lt (Num (of_nat j)) (Num (of_int N)) \<longleftrightarrow> j < nat N"
proof -
  have "(rat_of_nat j < rat_of_int N) = (int j < N)"
    by (metis of_int_less_iff of_int_of_nat_eq)
  then show ?thesis by auto
qed




section \<open>The deployment status waiter: decisions\<close>

lemma waitForStatus_try_events:
  "snd (waitForStatus_try env i owner repo did ai) = [ListDeploymentStatuses owner repo did]"
  by (simp add: waitForStatus_try_def Let_def split: sum.splits list.splits)

lemma waitForStatus_try_Inr:
  "fst (waitForStatus_try env i owner repo did ai) = Inr s \<longleftrightarrow>
     (\<exists>rest. listDeploymentStatuses env i = Inr (s # rest)
        \<and> (state s = state_success \<or> (state s = state_inactive \<and> ai)))"
  by (auto simp: waitForStatus_try_def Let_def split: sum.splits list.splits)

lemma waitForStatus_try_terminal:
  "(\<exists>s. fst (waitForStatus_try env i owner repo did ai) = Inr s) \<longleftrightarrow>
     terminal_positive ai (listDeploymentStatuses env i)"
  unfolding waitForStatus_try_Inr
  by (auto simp: terminal_positive_def split: sum.splits list.splits)

lemma waitForStatus_try_not_terminal:
  "\<not> terminal_positive ai (listDeploymentStatuses env i) \<Longrightarrow>
     \<exists>e. fst (waitForStatus_try env i owner repo did ai) = Inl e"
  using waitForStatus_try_terminal [of env i owner repo did ai]
  by (cases "fst (waitForStatus_try env i owner repo did ai)") auto

lemma waitForStatus_loop_skip:
  assumes "\<And>j. i \<le> j \<Longrightarrow> j < k \<Longrightarrow> \<exists>e. fst (waitForStatus_try env j owner repo did ai) = Inl e"
    and "\<And>j. j < k \<Longrightarrow> js_lt (Num (of_nat j)) its"
    and "i \<le> k"
  shows "waitForStatus_loop env owner repo did ai ci its i t =
         waitForStatus_loop env owner repo did ai ci its k
           (t @ concat (replicate (k - i) [ListDeploymentStatuses owner repo did, Wait ci]))"
  using assms
proof (induction "k - i" arbitrary: i t)
  case 0
  then show ?case by simp
next
  case (Suc d)
  then have lt: "i < k" and d: "d = k - Suc i" by auto
  from Suc.prems(1) [of i] lt obtain e
    where e: "fst (waitForStatus_try env i owner repo did ai) = Inl e" by auto
  have tr: "waitForStatus_try env i owner repo did ai = (Inl e, [ListDeploymentStatuses owner repo did])"
    using e waitForStatus_try_events [of env i owner repo did ai] by (cases "waitForStatus_try env i owner repo did ai") simp
  have step: "waitForStatus_loop env owner repo did ai ci its i t =
      waitForStatus_loop env owner repo did ai ci its (Suc i)
        (t @ [ListDeploymentStatuses owner repo did, Wait ci])"
    using Suc.prems(2) [OF lt] tr by (subst waitForStatus_loop.simps) simp
  have ih: "waitForStatus_loop env owner repo did ai ci its (Suc i)
       (t @ [ListDeploymentStatuses owner repo did, Wait ci]) =
     waitForStatus_loop env owner repo did ai ci its k
       ((t @ [ListDeploymentStatuses owner repo did, Wait ci]) @
        concat (replicate (k - Suc i) [ListDeploymentStatuses owner repo did, Wait ci]))"
    using Suc.prems lt by (intro Suc.hyps(1) [OF d]) auto
  have "k - i = Suc (k - Suc i)" using lt by simp
  then show ?case using step ih by simp
qed

lemma waitForStatus_loop_return:
  assumes "js_lt (Num (of_nat k)) its"
    and "fst (waitForStatus_try env k owner repo did ai) = Inr s"
  shows "waitForStatus_loop env owner repo did ai ci its k t =
           Some (Some s, t @ [ListDeploymentStatuses owner repo did])"
proof -
  have "waitForStatus_try env k owner repo did ai = (Inr s, [ListDeploymentStatuses owner repo did])"
    using assms(2) waitForStatus_try_events [of env k owner repo did ai]
    by (cases "waitForStatus_try env k owner repo did ai") simp
  then show ?thesis using assms(1) by (subst waitForStatus_loop.simps) simp
qed

lemma waitForStatus_loop_timeout:
  assumes "\<not> js_lt (Num (of_nat k)) its"
  shows "waitForStatus_loop env owner repo did ai ci its k t =
           Some (None, t @ [SetFailed
             ''Timeout reached: Unable to wait for an deployment to be successful''])"
  using assms by (subst waitForStatus_loop.simps) simp

lemma waitForStatus_first_terminal:
  assumes "js_lt (Num (of_nat k)) (calculateIterations mt ci)"
    and "fst (waitForStatus_try env k owner repo did ai) = Inr s"
    and "\<And>j. j < k \<Longrightarrow> \<exists>e. fst (waitForStatus_try env j owner repo did ai) = Inl e"
  shows "waitForStatus env owner repo did mt ai ci t =
           Some (Some s,
             t @ concat (replicate k [ListDeploymentStatuses owner repo did, Wait ci])
               @ [ListDeploymentStatuses owner repo did])"
proof -
  have "waitForStatus env owner repo did mt ai ci t =
      waitForStatus_loop env owner repo did ai ci (calculateIterations mt ci) k
        (t @ concat (replicate (k - 0) [ListDeploymentStatuses owner repo did, Wait ci]))"
    unfolding waitForStatus_def
    using assms(3) js_lt_nat_mono [OF assms(1)]
    by (intro waitForStatus_loop_skip) auto
  then show ?thesis
    using waitForStatus_loop_return [OF assms(1,2)] by simp
qed

lemma waitForStatus_exhausted:
  assumes "calculateIterations mt ci = Num (of_int N)"
    and "\<And>j. j < nat N \<Longrightarrow> \<exists>e. fst (waitForStatus_try env j owner repo did ai) = Inl e"
  shows "waitForStatus env owner repo did mt ai ci t =
           Some (None,
             t @ concat (replicate (nat N) [ListDeploymentStatuses owner repo did, Wait ci])
               @ [SetFailed
                    ''Timeout reached: Unable to wait for an deployment to be successful''])"
proof -
  have "waitForStatus env owner repo did mt ai ci t =
      waitForStatus_loop env owner repo did ai ci (calculateIterations mt ci) (nat N)
        (t @ concat (replicate (nat N - 0) [ListDeploymentStatuses owner repo did, Wait ci]))"
    unfolding waitForStatus_def
    using assms(2) by (intro waitForStatus_loop_skip) (auto simp: assms(1) js_lt_of_int_iff)
  moreover have "\<not> js_lt (Num (of_nat (nat N))) (calculateIterations mt ci)"
    by (simp add: assms(1) js_lt_of_int_iff)
  ultimately show ?thesis
    using waitForStatus_loop_timeout by simp
qed

text \<open>
  C2. An attempt of the status waiter ends the wait exactly when its poll is
  terminal-positive: the newest status is \<open>success\<close>, or \<open>inactive\<close> while \<open>allowInactive\<close>
  holds. The waiter returns the newest status of the first such attempt within the
  budget, having polled and slept once for every attempt before it; an empty list, any
  other state and a thrown error all lead to the next attempt. When no attempt of a finite
  budget is terminal-positive, the waiter reports the timeout and returns nothing.
\<close>

theorem waitForStatus_decision:
  "((\<exists>s. fst (waitForStatus_try env i owner repo did ai) = Inr s) \<longleftrightarrow>
      terminal_positive ai (listDeploymentStatuses env i))
   \<and> (js_lt (Num (of_nat k)) (calculateIterations mt ci)
        \<and> terminal_positive ai (listDeploymentStatuses env k)
        \<and> (\<forall>j<k. \<not> terminal_positive ai (listDeploymentStatuses env j))
      \<longrightarrow> (\<exists>s rest. listDeploymentStatuses env k = Inr (s # rest)
             \<and> waitForStatus env owner repo did mt ai ci t =
                 Some (Some s,
                   t @ concat (replicate k [ListDeploymentStatuses owner repo did, Wait ci])
                     @ [ListDeploymentStatuses owner repo did])))
   \<and> (calculateIterations mt ci = Num (of_int N)
        \<and> (\<forall>j<nat N. \<not> terminal_positive ai (listDeploymentStatuses env j))
      \<longrightarrow> waitForStatus env owner repo did mt ai ci t =
            Some (None,
              t @ concat (replicate (nat N) [ListDeploymentStatuses owner repo did, Wait ci])
                @ [SetFailed
                     ''Timeout reached: Unable to wait for an deployment to be successful'']))"
proof (intro conjI impI)
  show "(\<exists>s. fst (waitForStatus_try env i owner repo did ai) = Inr s) \<longleftrightarrow>
      terminal_positive ai (listDeploymentStatuses env i)"
    by (rule waitForStatus_try_terminal)
next
  assume a: "js_lt (Num (of_nat k)) (calculateIterations mt ci)
        \<and> terminal_positive ai (listDeploymentStatuses env k)
        \<and> (\<forall>j<k. \<not> terminal_positive ai (listDeploymentStatuses env j))"
  then obtain s where s: "fst (waitForStatus_try env k owner repo did ai) = Inr s"
    using waitForStatus_try_terminal [of env k owner repo did ai] by blast
  then obtain rest where r: "listDeploymentStatuses env k = Inr (s # rest)"
    unfolding waitForStatus_try_Inr by blast
  have "waitForStatus env owner repo did mt ai ci t =
           Some (Some s,
             t @ concat (replicate k [ListDeploymentStatuses owner repo did, Wait ci])
               @ [ListDeploymentStatuses owner repo did])"
    using a s by (intro waitForStatus_first_terminal) (auto intro: waitForStatus_try_not_terminal)
  with r show "\<exists>s rest. listDeploymentStatuses env k = Inr (s # rest)
             \<and> waitForStatus env owner repo did mt ai ci t =
                 Some (Some s,
                   t @ concat (replicate k [ListDeploymentStatuses owner repo did, Wait ci])
                     @ [ListDeploymentStatuses owner repo did])"
    by blast
next
  assume a: "calculateIterations mt ci = Num (of_int N)
        \<and> (\<forall>j<nat N. \<not> terminal_positive ai (listDeploymentStatuses env j))"
  then show "waitForStatus env owner repo did mt ai ci t =
            Some (None,
              t @ concat (replicate (nat N) [ListDeploymentStatuses owner repo did, Wait ci])
                @ [SetFailed
                     ''Timeout reached: Unable to wait for an deployment to be successful''])"
    by (intro waitForStatus_exhausted) (auto intro: waitForStatus_try_not_terminal)
qed

theorem waitForStatus_decision_witness:
  "js_lt (Num (of_nat 2)) (calculateIterations (Num 60) (Num 2000))
   \<and> waitForStatus (status_world [state_queued, state_in_progress] state_success)
         ''o'' ''r'' 7 (Num 60) False (Num 2000) [] =
       Some (Some (status_of state_success),
         [ListDeploymentStatuses ''o'' ''r'' 7, Wait (Num 2000),
          ListDeploymentStatuses ''o'' ''r'' 7, Wait (Num 2000),
          ListDeploymentStatuses ''o'' ''r'' 7])
   \<and> calculateIterations (Num 4) (Num 2000) = Num (of_int 2)
   \<and> waitForStatus (status_world [] state_inactive) ''o'' ''r'' 7 (Num 4) False (Num 2000) [] =
       Some (None,
         [ListDeploymentStatuses ''o'' ''r'' 7, Wait (Num 2000),
          ListDeploymentStatuses ''o'' ''r'' 7, Wait (Num 2000),
          SetFailed ''Timeout reached: Unable to wait for an deployment to be successful''])
   \<and> waitForStatus (status_world [] state_inactive) ''o'' ''r'' 7 (Num 4) True (Num 2000) [] =
       Some (Some (status_of state_inactive), [ListDeploymentStatuses ''o'' ''r'' 7])"
proof -
  let ?w = "status_world [state_queued, state_in_progress] state_success"
  let ?v = "status_world [] state_inactive"
  have b30: "calculateIterations (Num 60) (Num 2000) = Num 30"
    and b2: "calculateIterations (Num 4) (Num 2000) = Num (of_int 2)"
    by (simp_all add: calculateIterations_def)
  have w: "\<And>j. listDeploymentStatuses ?w j =
      Inr [status_of (script [state_queued, state_in_progress] state_success j)]"
    by (simp add: status_world_def quiet_world_def)
  have v: "\<And>j. listDeploymentStatuses ?v j = Inr [status_of state_inactive]"
    by (simp add: status_world_def quiet_world_def script_def)
  have h1: "js_lt (Num (of_nat 2)) (calculateIterations (Num 60) (Num 2000))
      \<and> terminal_positive False (listDeploymentStatuses ?w 2)
      \<and> (\<forall>j<2. \<not> terminal_positive False (listDeploymentStatuses ?w j))"
    by (simp add: b30 w terminal_positive_def status_of_def script_def less_Suc_eq
        numeral_2_eq_2)
  have h2: "calculateIterations (Num 4) (Num 2000) = Num (of_int 2)
      \<and> (\<forall>j<nat 2. \<not> terminal_positive False (listDeploymentStatuses ?v j))"
    by (simp add: b2 v terminal_positive_def status_of_def)
  have h3: "js_lt (Num (of_nat 0)) (calculateIterations (Num 4) (Num 2000))
      \<and> terminal_positive True (listDeploymentStatuses ?v 0)
      \<and> (\<forall>j<0. \<not> terminal_positive True (listDeploymentStatuses ?v j))"
    by (simp add: b2 v terminal_positive_def status_of_def)
  note d1 = waitForStatus_decision [of ?w 0 "''o''" "''r''" 7 False 2 "Num 60" "Num 2000" "[]" 0]
  note d2 = waitForStatus_decision [of ?v 0 "''o''" "''r''" 7 False 0 "Num 4" "Num 2000" "[]" 2]
  note d3 = waitForStatus_decision [of ?v 0 "''o''" "''r''" 7 True 0 "Num 4" "Num 2000" "[]" 2]
  have r1: "waitForStatus ?w ''o'' ''r'' 7 (Num 60) False (Num 2000) [] =
       Some (Some (status_of state_success),
         [ListDeploymentStatuses ''o'' ''r'' 7, Wait (Num 2000),
          ListDeploymentStatuses ''o'' ''r'' 7, Wait (Num 2000),
          ListDeploymentStatuses ''o'' ''r'' 7])"
    using d1 h1 by (simp add: w script_def numeral_2_eq_2)
  have r2: "waitForStatus ?v ''o'' ''r'' 7 (Num 4) False (Num 2000) [] =
       Some (None,
         [ListDeploymentStatuses ''o'' ''r'' 7, Wait (Num 2000),
          ListDeploymentStatuses ''o'' ''r'' 7, Wait (Num 2000),
          SetFailed ''Timeout reached: Unable to wait for an deployment to be successful''])"
    using d2 h2 by (simp add: numeral_2_eq_2)
  have r3: "waitForStatus ?v ''o'' ''r'' 7 (Num 4) True (Num 2000) [] =
       Some (Some (status_of state_inactive), [ListDeploymentStatuses ''o'' ''r'' 7])"
    using d3 h3 by (simp add: v)
  show ?thesis using h1 b2 r1 r2 r3 by blast
qed

section \<open>The deployment start waiter: first match\<close>

lemma find_first_match:
  "(\<forall>x \<in> set pre. \<not> P x) \<Longrightarrow> P d \<Longrightarrow> find P (pre @ d # post) = Some d"
  by (induction pre) auto

lemma created_by_login:
  "created_by actorName d \<longleftrightarrow> map_option login (creator d) = Some actorName"
  by (simp add: created_by_def split: option.splits)

lemma waitForDeploymentToStart_try_events:
  "snd (waitForDeploymentToStart_try env i owner repo sha environment actorName) =
     [ListDeployments owner repo sha environment]"
  by (simp add: waitForDeploymentToStart_try_def Let_def split: sum.splits)

lemma waitForDeploymentToStart_try_match:
  assumes "listDeployments env i = Inr (pre @ d # post)"
    and "\<forall>x \<in> set pre. \<not> created_by actorName x"
    and "created_by actorName d"
  shows "fst (waitForDeploymentToStart_try env i owner repo sha environment actorName) =
           Inr (Some d)"
proof -
  have "find (\<lambda>deployment. map_option login (creator deployment) = Some actorName)
          (pre @ d # post) = Some d"
    using assms(2,3) by (intro find_first_match) (simp_all add: created_by_login)
  then show ?thesis
    by (simp add: waitForDeploymentToStart_try_def Let_def assms(1))
qed

lemma waitForDeploymentToStart_try_no_match:
  assumes "\<not> has_match actorName (listDeployments env i)"
    and "fst (waitForDeploymentToStart_try env i owner repo sha environment actorName) =
           Inr (Some d)"
  shows False
proof (cases "listDeployments env i")
  case (Inl e)
  then show ?thesis using assms(2) by (simp add: waitForDeploymentToStart_try_def Let_def)
next
  case (Inr ds)
  with assms(1) have "\<forall>x \<in> set ds. \<not> created_by actorName x"
    by (simp add: has_match_def)
  then have none:
    "find (\<lambda>deployment. map_option login (creator deployment) = Some actorName) ds = None"
    by (simp add: find_None_iff created_by_login)
  show ?thesis
    using assms(2) unfolding waitForDeploymentToStart_try_def Let_def Inr sum.case none
    by (simp split: if_splits)
qed

lemma waitForDeploymentToStart_loop_skip:
  assumes "\<And>j d. i \<le> j \<Longrightarrow> j < k \<Longrightarrow>
             fst (waitForDeploymentToStart_try env j owner repo sha environment actorName) \<noteq>
               Inr (Some d)"
    and "\<And>j. j < k \<Longrightarrow> js_lt (Num (of_nat j)) its"
    and "i \<le> k"
  shows "waitForDeploymentToStart_loop env owner repo sha environment actorName ci its i t =
         waitForDeploymentToStart_loop env owner repo sha environment actorName ci its k
           (t @ concat (replicate (k - i) [ListDeployments owner repo sha environment, Wait ci]))"
  using assms
proof (induction "k - i" arbitrary: i t)
  case 0
  then show ?case by simp
next
  case (Suc n)
  then have lt: "i < k" and n: "n = k - Suc i" by auto
  obtain r es where tr:
    "waitForDeploymentToStart_try env i owner repo sha environment actorName = (r, es)"
    by (cases "waitForDeploymentToStart_try env i owner repo sha environment actorName")
  have es: "es = [ListDeployments owner repo sha environment]"
    using waitForDeploymentToStart_try_events [of env i owner repo sha environment actorName] tr
    by simp
  have r: "\<And>d. r \<noteq> Inr (Some d)"
    using Suc.prems(1) [of i] lt tr by simp
  have step:
    "waitForDeploymentToStart_loop env owner repo sha environment actorName ci its i t =
     waitForDeploymentToStart_loop env owner repo sha environment actorName ci its (Suc i)
       (t @ [ListDeployments owner repo sha environment, Wait ci])"
    using Suc.prems(2) [OF lt] tr es r
    by (subst waitForDeploymentToStart_loop.simps) (simp split: sum.splits option.splits)
  have ih:
    "waitForDeploymentToStart_loop env owner repo sha environment actorName ci its (Suc i)
       (t @ [ListDeployments owner repo sha environment, Wait ci]) =
     waitForDeploymentToStart_loop env owner repo sha environment actorName ci its k
       ((t @ [ListDeployments owner repo sha environment, Wait ci]) @
        concat (replicate (k - Suc i) [ListDeployments owner repo sha environment, Wait ci]))"
    using Suc.prems lt by (intro Suc.hyps(1) [OF n]) auto
  have "k - i = Suc (k - Suc i)" using lt by simp
  then show ?case using step ih by simp
qed

lemma waitForDeploymentToStart_returns_match:
  assumes "js_lt (Num (of_nat k)) (calculateIterations mt ci)"
    and "fst (waitForDeploymentToStart_try env k owner repo sha environment actorName) =
           Inr (Some d)"
    and "\<And>j d'. j < k \<Longrightarrow>
           fst (waitForDeploymentToStart_try env j owner repo sha environment actorName) \<noteq>
             Inr (Some d')"
  shows "waitForDeploymentToStart env owner repo sha environment (Some actorName) (Some mt)
           (Some ci) t =
         Some (Some d,
           t @ concat (replicate k [ListDeployments owner repo sha environment, Wait ci])
             @ [ListDeployments owner repo sha environment])"
proof -
  have "waitForDeploymentToStart env owner repo sha environment (Some actorName) (Some mt)
           (Some ci) t =
      waitForDeploymentToStart_loop env owner repo sha environment actorName ci
        (calculateIterations mt ci) k
        (t @ concat (replicate (k - 0) [ListDeployments owner repo sha environment, Wait ci]))"
    unfolding waitForDeploymentToStart_def Let_def option.case
    using assms(3) js_lt_nat_mono [OF assms(1)]
    by (intro waitForDeploymentToStart_loop_skip) auto
  moreover have
    "waitForDeploymentToStart_try env k owner repo sha environment actorName =
       (Inr (Some d), [ListDeployments owner repo sha environment])"
    using assms(2)
      waitForDeploymentToStart_try_events [of env k owner repo sha environment actorName]
    by (cases "waitForDeploymentToStart_try env k owner repo sha environment actorName") simp
  ultimately show ?thesis
    using assms(1) by (subst (asm) waitForDeploymentToStart_loop.simps) simp
qed

lemma waitForDeploymentToStart_exhausted:
  assumes "calculateIterations mt ci = Num (of_int N)"
    and "\<And>j d'. j < nat N \<Longrightarrow>
           fst (waitForDeploymentToStart_try env j owner repo sha environment actorName) \<noteq>
             Inr (Some d')"
  shows "waitForDeploymentToStart env owner repo sha environment (Some actorName) (Some mt)
           (Some ci) t =
         Some (None,
           t @ concat (replicate (nat N) [ListDeployments owner repo sha environment, Wait ci]))"
proof -
  have "waitForDeploymentToStart env owner repo sha environment (Some actorName) (Some mt)
           (Some ci) t =
      waitForDeploymentToStart_loop env owner repo sha environment actorName ci
        (calculateIterations mt ci) (nat N)
        (t @ concat (replicate (nat N - 0)
                       [ListDeployments owner repo sha environment, Wait ci]))"
    unfolding waitForDeploymentToStart_def Let_def option.case
    using assms(2)
    by (intro waitForDeploymentToStart_loop_skip) (auto simp: assms(1) js_lt_of_int_iff)
  moreover have "\<not> js_lt (Num (of_nat (nat N))) (calculateIterations mt ci)"
    by (simp add: assms(1) js_lt_of_int_iff)
  ultimately show ?thesis
    by (subst (asm) waitForDeploymentToStart_loop.simps) simp
qed

text \<open>
  C5. The start waiter returns at the first attempt within the budget whose list has a
  match, and returns the first entry of that list, in the list's own order, that the actor
  created. Every attempt before it, whether its request threw or its list had no match,
  costs the same request and the same sleep. When no attempt of a finite budget has a
  match, the waiter returns null after the last sleep.
\<close>

theorem waitForDeploymentToStart_first:
  "(js_lt (Num (of_nat k)) (calculateIterations mt ci)
      \<and> listDeployments env k = Inr (pre @ d # post)
      \<and> (\<forall>x \<in> set pre. \<not> created_by actorName x) \<and> created_by actorName d
      \<and> (\<forall>j<k. \<not> has_match actorName (listDeployments env j))
    \<longrightarrow> waitForDeploymentToStart env owner repo sha environment (Some actorName) (Some mt)
          (Some ci) t =
        Some (Some d,
          t @ concat (replicate k [ListDeployments owner repo sha environment, Wait ci])
            @ [ListDeployments owner repo sha environment]))
   \<and> (calculateIterations mt ci = Num (of_int N)
      \<and> (\<forall>j<nat N. \<not> has_match actorName (listDeployments env j))
    \<longrightarrow> waitForDeploymentToStart env owner repo sha environment (Some actorName) (Some mt)
          (Some ci) t =
        Some (None,
          t @ concat (replicate (nat N)
                        [ListDeployments owner repo sha environment, Wait ci])))"
proof (intro conjI impI)
  assume a: "js_lt (Num (of_nat k)) (calculateIterations mt ci)
      \<and> listDeployments env k = Inr (pre @ d # post)
      \<and> (\<forall>x \<in> set pre. \<not> created_by actorName x) \<and> created_by actorName d
      \<and> (\<forall>j<k. \<not> has_match actorName (listDeployments env j))"
  then have "fst (waitForDeploymentToStart_try env k owner repo sha environment actorName) =
      Inr (Some d)"
    by (intro waitForDeploymentToStart_try_match [of env k pre d post]) auto
  then show "waitForDeploymentToStart env owner repo sha environment (Some actorName)
      (Some mt) (Some ci) t =
        Some (Some d,
          t @ concat (replicate k [ListDeployments owner repo sha environment, Wait ci])
            @ [ListDeployments owner repo sha environment])"
    using a
    by (intro waitForDeploymentToStart_returns_match)
      (auto dest: waitForDeploymentToStart_try_no_match)
next
  assume "calculateIterations mt ci = Num (of_int N)
      \<and> (\<forall>j<nat N. \<not> has_match actorName (listDeployments env j))"
  then show "waitForDeploymentToStart env owner repo sha environment (Some actorName)
      (Some mt) (Some ci) t =
        Some (None,
          t @ concat (replicate (nat N)
                        [ListDeployments owner repo sha environment, Wait ci]))"
    by (intro waitForDeploymentToStart_exhausted)
      (auto dest: waitForDeploymentToStart_try_no_match)
qed

theorem waitForDeploymentToStart_first_witness:
  "js_lt (Num (of_nat 1)) (calculateIterations (Num 60) (Num 2000))
   \<and> waitForDeploymentToStart
         (start_world [Inl (RequestError ''Bad gateway'')]
            (Inr [deployment_by 1 ''alice'', deployment_by 2 ''vercel[bot]'',
                  deployment_by 3 ''vercel[bot]'']))
         ''o'' ''r'' ''abc'' None (Some ''vercel[bot]'') (Some (Num 60)) (Some (Num 2000)) [] =
       Some (Some (deployment_by 2 ''vercel[bot]''),
         [ListDeployments ''o'' ''r'' ''abc'' None, Wait (Num 2000),
          ListDeployments ''o'' ''r'' ''abc'' None])
   \<and> calculateIterations (Num 4) (Num 2000) = Num (of_int 2)
   \<and> waitForDeploymentToStart
         (start_world [Inl (RequestError ''Bad gateway'')] (Inr [deployment_by 1 ''alice'']))
         ''o'' ''r'' ''abc'' None (Some ''vercel[bot]'') (Some (Num 4)) (Some (Num 2000)) [] =
       Some (None,
         [ListDeployments ''o'' ''r'' ''abc'' None, Wait (Num 2000),
          ListDeployments ''o'' ''r'' ''abc'' None, Wait (Num 2000)])"
proof -
  let ?w = "start_world [Inl (RequestError ''Bad gateway'')]
            (Inr [deployment_by 1 ''alice'', deployment_by 2 ''vercel[bot]'',
                  deployment_by 3 ''vercel[bot]''])"
  let ?v = "start_world [Inl (RequestError ''Bad gateway'')] (Inr [deployment_by 1 ''alice''])"
  have b30: "calculateIterations (Num 60) (Num 2000) = Num 30"
    and b2: "calculateIterations (Num 4) (Num 2000) = Num (of_int 2)"
    by (simp_all add: calculateIterations_def)
  have w: "\<And>j. listDeployments ?w j =
      script [Inl (RequestError ''Bad gateway'')]
        (Inr [deployment_by 1 ''alice'', deployment_by 2 ''vercel[bot]'',
              deployment_by 3 ''vercel[bot]'']) j"
    and v: "\<And>j. listDeployments ?v j =
      script [Inl (RequestError ''Bad gateway'')] (Inr [deployment_by 1 ''alice'']) j"
    by (simp_all add: start_world_def quiet_world_def)
  have h1: "js_lt (Num (of_nat 1)) (calculateIterations (Num 60) (Num 2000))
      \<and> listDeployments ?w 1 =
          Inr ([deployment_by 1 ''alice''] @ deployment_by 2 ''vercel[bot]''
                 # [deployment_by 3 ''vercel[bot]''])
      \<and> (\<forall>x \<in> set [deployment_by 1 ''alice'']. \<not> created_by ''vercel[bot]'' x)
      \<and> created_by ''vercel[bot]'' (deployment_by 2 ''vercel[bot]'')
      \<and> (\<forall>j<1. \<not> has_match ''vercel[bot]'' (listDeployments ?w j))"
    unfolding w by (simp add: b30 script_def created_by_def deployment_by_def has_match_def)
  have h2: "calculateIterations (Num 4) (Num 2000) = Num (of_int 2)
      \<and> (\<forall>j<nat 2. \<not> has_match ''vercel[bot]'' (listDeployments ?v j))"
    unfolding v by (simp add: b2 script_def created_by_def deployment_by_def has_match_def)
  note d1 = waitForDeploymentToStart_first [of 1 "Num 60" "Num 2000" ?w
      "[deployment_by 1 ''alice'']" "deployment_by 2 ''vercel[bot]''"
      "[deployment_by 3 ''vercel[bot]'']" "''vercel[bot]''" "''o''" "''r''" "''abc''" None "[]" 0]
  note d2 = waitForDeploymentToStart_first [of 0 "Num 4" "Num 2000" ?v
      "[]" "deployment_by 1 ''alice''" "[]" "''vercel[bot]''" "''o''" "''r''" "''abc''" None "[]" 2]
  have r1: "waitForDeploymentToStart ?w
         ''o'' ''r'' ''abc'' None (Some ''vercel[bot]'') (Some (Num 60)) (Some (Num 2000)) [] =
       Some (Some (deployment_by 2 ''vercel[bot]''),
         [ListDeployments ''o'' ''r'' ''abc'' None, Wait (Num 2000),
          ListDeployments ''o'' ''r'' ''abc'' None])"
    using d1 h1 by simp
  have r2: "waitForDeploymentToStart ?v
         ''o'' ''r'' ''abc'' None (Some ''vercel[bot]'') (Some (Num 4)) (Some (Num 2000)) [] =
       Some (None,
         [ListDeployments ''o'' ''r'' ''abc'' None, Wait (Num 2000),
          ListDeployments ''o'' ''r'' ''abc'' None, Wait (Num 2000)])"
    using d2 h2 by (simp add: numeral_2_eq_2)
  show ?thesis using h1 b2 r1 r2 by blast
qed

section \<open>The URL health waiter: first answer\<close>



lemma waitForUrl_loop_skip:
  assumes "\<And>j. i \<le> j \<Longrightarrow> j < k \<Longrightarrow> \<exists>e. fst (waitForUrl_try env j url vp pbh path) = Inl e"
    and "\<And>j. j < k \<Longrightarrow> js_lt (Num (of_nat j)) its"
    and "i \<le> k"
  shows "waitForUrl_loop env url ci vp pbh path its i t =
         waitForUrl_loop env url ci vp pbh path its k
           (t @ concat (map (\<lambda>j. snd (waitForUrl_try env j url vp pbh path) @ [Wait ci])
                          [i..<k]))"
  using assms
proof (induction "k - i" arbitrary: i t)
  case 0
  then show ?case by simp
next
  case (Suc n)
  then have lt: "i < k" and n: "n = k - Suc i" by auto
  from Suc.prems(1) [of i] lt obtain e es
    where tr: "waitForUrl_try env i url vp pbh path = (Inl e, es)"
    by (cases "waitForUrl_try env i url vp pbh path") auto
  have step: "waitForUrl_loop env url ci vp pbh path its i t =
      waitForUrl_loop env url ci vp pbh path its (Suc i) (t @ es @ [Wait ci])"
    using Suc.prems(2) [OF lt] tr by (subst waitForUrl_loop.simps) simp
  have ih: "waitForUrl_loop env url ci vp pbh path its (Suc i) (t @ es @ [Wait ci]) =
     waitForUrl_loop env url ci vp pbh path its k
       ((t @ es @ [Wait ci]) @
        concat (map (\<lambda>j. snd (waitForUrl_try env j url vp pbh path) @ [Wait ci])
                  [Suc i..<k]))"
    using Suc.prems lt by (intro Suc.hyps(1) [OF n]) auto
  have "[i..<k] = i # [Suc i..<k]" using lt by (simp add: upt_conv_Cons)
  then show ?case using step ih tr by simp
qed


lemma waitForUrl_exhausted:
  assumes "calculateIterations mt ci = Num (of_int N)"
    and "\<And>j. j < nat N \<Longrightarrow> \<exists>e. fst (waitForUrl_try env j url vp pbh path) = Inl e"
  shows "waitForUrl env url mt ci vp pbh path t =
           Some (t @ concat (map (\<lambda>j. snd (waitForUrl_try env j url vp pbh path) @ [Wait ci])
                               [0..<nat N])
                   @ [SetFailed (''Timeout reached: Unable to connect to '' @ url)])"
proof -
  have "waitForUrl env url mt ci vp pbh path t =
      waitForUrl_loop env url ci vp pbh path (calculateIterations mt ci) (nat N)
        (t @ concat (map (\<lambda>j. snd (waitForUrl_try env j url vp pbh path) @ [Wait ci])
                       [0..<nat N]))"
    unfolding waitForUrl_def
    using assms(2) by (intro waitForUrl_loop_skip) (auto simp: assms(1) js_lt_of_int_iff)
  moreover have "\<not> js_lt (Num (of_nat (nat N))) (calculateIterations mt ci)"
    by (simp add: assms(1) js_lt_of_int_iff)
  ultimately show ?thesis
    by (subst (asm) waitForUrl_loop.simps) simp
qed




section \<open>An exhausted budget\<close>





section \<open>The password exchange: request, statuses and token\<close>

lemma getPassword_events:
  "snd (getPassword env i url pw) = [Request (getPassword_request url pw)]"
  by (simp add: getPassword_def Let_def split: sum.splits option.splits)

lemma getPassword_rejected:
  assumes "post_reply env i = Response r"
  shows "fst (getPassword env i url pw) = Inl (AxiosError (Some r)) \<longleftrightarrow>
           \<not> (200 \<le> resp_status r \<and> resp_status r < 307)"
  using assms
  by (auto simp: getPassword_def Let_def axios_settle_def getPassword_validateStatus_def
      split: option.splits)

lemma getPassword_token:
  assumes "post_reply env i = Response r"
    and "200 \<le> resp_status r" and "resp_status r < 307"
    and "resp_set_cookie r = Some ls"
    and "parseCookies env ls = pre @ c # post"
    and "\<forall>x \<in> set pre. cookie_name x \<noteq> ''_vercel_jwt''"
    and "cookie_name c = ''_vercel_jwt''"
  shows "fst (getPassword env i url pw) =
           (if cookie_value c = [] then Inl (JsError ''no vercel JWT in response'')
            else Inr (cookie_value c))"
proof -
  have "find (\<lambda>cookie. cookie_name cookie = ''_vercel_jwt'') (pre @ c # post) = Some c"
    using assms(6,7) by (intro find_first_match) simp_all
  then show ?thesis
    using assms(1-5)
    by (simp add: getPassword_def Let_def axios_settle_def getPassword_validateStatus_def)
qed

lemma getPassword_no_cookie:
  assumes "post_reply env i = Response r"
    and "200 \<le> resp_status r" and "resp_status r < 307"
    and "resp_set_cookie r = None
         \<or> (\<exists>ls. resp_set_cookie r = Some ls
               \<and> (\<forall>x \<in> set (parseCookies env ls). cookie_name x \<noteq> ''_vercel_jwt''))"
  shows "fst (getPassword env i url pw) = Inl (JsError ''no vercel JWT in response'')"
proof -
  have "\<And>ls. \<forall>x \<in> set (parseCookies env ls). cookie_name x \<noteq> ''_vercel_jwt'' \<Longrightarrow>
      find (\<lambda>cookie. cookie_name cookie = ''_vercel_jwt'') (parseCookies env ls) = None"
    by (simp add: find_None_iff)
  then show ?thesis
    using assms
    by (auto simp: getPassword_def Let_def axios_settle_def getPassword_validateStatus_def)
qed

text \<open>
  C7. The password exchange issues one request: a POST to the base URL whose body is the
  form field \<^verbatim>\<open>_vercel_password\<close>, with the form content type and no redirect followed. A
  response is refused for its status exactly when the status lies outside \<open>[200, 307)\<close>.
  For an accepted response, the result is the value of the first cookie named
  \<^verbatim>\<open>_vercel_jwt\<close> among the parsed \<^verbatim>\<open>Set-Cookie\<close> lines; without the header, without such a
  cookie, or with an empty value, the exchange throws the missing-token error.
\<close>

theorem getPassword_exchange:
  "snd (getPassword env i url pw) =
     [Request \<lparr>req_method = ''post'', req_url = url,
               req_data = [(''_vercel_password'', pw)],
               req_headers = [(''content-type'', ''application/x-www-form-urlencoded'')],
               req_maxRedirects = Some 0\<rparr>]
   \<and> (post_reply env i = Response r \<longrightarrow>
        (fst (getPassword env i url pw) = Inl (AxiosError (Some r)) \<longleftrightarrow>
           \<not> (200 \<le> resp_status r \<and> resp_status r < 307)))
   \<and> (post_reply env i = Response r \<and> 200 \<le> resp_status r \<and> resp_status r < 307
        \<and> resp_set_cookie r = Some ls \<and> parseCookies env ls = pre @ c # post
        \<and> (\<forall>x \<in> set pre. cookie_name x \<noteq> ''_vercel_jwt'') \<and> cookie_name c = ''_vercel_jwt''
      \<longrightarrow> fst (getPassword env i url pw) =
            (if cookie_value c = [] then Inl (JsError ''no vercel JWT in response'')
             else Inr (cookie_value c)))
   \<and> (post_reply env i = Response r \<and> 200 \<le> resp_status r \<and> resp_status r < 307
        \<and> (resp_set_cookie r = None
             \<or> (\<exists>ls. resp_set_cookie r = Some ls
                   \<and> (\<forall>x \<in> set (parseCookies env ls). cookie_name x \<noteq> ''_vercel_jwt'')))
      \<longrightarrow> fst (getPassword env i url pw) = Inl (JsError ''no vercel JWT in response''))"
proof (intro conjI impI)
  show "snd (getPassword env i url pw) =
     [Request \<lparr>req_method = ''post'', req_url = url,
               req_data = [(''_vercel_password'', pw)],
               req_headers = [(''content-type'', ''application/x-www-form-urlencoded'')],
               req_maxRedirects = Some 0\<rparr>]"
    by (simp add: getPassword_events getPassword_request_def)
next
  assume "post_reply env i = Response r"
  then show "fst (getPassword env i url pw) = Inl (AxiosError (Some r)) \<longleftrightarrow>
           \<not> (200 \<le> resp_status r \<and> resp_status r < 307)"
    by (rule getPassword_rejected)
next
  assume "post_reply env i = Response r \<and> 200 \<le> resp_status r \<and> resp_status r < 307
        \<and> resp_set_cookie r = Some ls \<and> parseCookies env ls = pre @ c # post
        \<and> (\<forall>x \<in> set pre. cookie_name x \<noteq> ''_vercel_jwt'') \<and> cookie_name c = ''_vercel_jwt''"
  then show "fst (getPassword env i url pw) =
            (if cookie_value c = [] then Inl (JsError ''no vercel JWT in response'')
             else Inr (cookie_value c))"
    by (intro getPassword_token [of env i r ls pre c post]) simp_all
next
  assume "post_reply env i = Response r \<and> 200 \<le> resp_status r \<and> resp_status r < 307
        \<and> (resp_set_cookie r = None
             \<or> (\<exists>ls. resp_set_cookie r = Some ls
                   \<and> (\<forall>x \<in> set (parseCookies env ls). cookie_name x \<noteq> ''_vercel_jwt'')))"
  then show "fst (getPassword env i url pw) = Inl (JsError ''no vercel JWT in response'')"
    by (intro getPassword_no_cookie [of env i r]) simp_all
qed

lemma split_cookie_jwt:
  "map split_cookie [''_vercel_jwt=abc123''] =
     [] @ \<lparr>cookie_name = ''_vercel_jwt'', cookie_value = ''abc123''\<rparr> # []"
  by (simp add: split_cookie_def)

theorem getPassword_exchange_witness:
  "post_reply (url_world [http_cookie 303 [''_vercel_jwt=abc123'']] NoResponse [] NoResponse) 0 =
     Response \<lparr>resp_status = 303, resp_set_cookie = Some [''_vercel_jwt=abc123'']\<rparr>
   \<and> parseCookies (url_world [http_cookie 303 [''_vercel_jwt=abc123'']] NoResponse [] NoResponse)
        [''_vercel_jwt=abc123''] =
       [] @ \<lparr>cookie_name = ''_vercel_jwt'', cookie_value = ''abc123''\<rparr> # []
   \<and> fst (getPassword
            (url_world [http_cookie 303 [''_vercel_jwt=abc123'']] NoResponse [] NoResponse) 0
            ''https://preview.example.com'' ''secret'') = Inr ''abc123''
   \<and> fst (getPassword (url_world [http 303] NoResponse [] NoResponse) 0
            ''https://preview.example.com'' ''secret'') =
       Inl (JsError ''no vercel JWT in response'')
   \<and> fst (getPassword (url_world [http 307] NoResponse [] NoResponse) 0
            ''https://preview.example.com'' ''secret'') =
       Inl (AxiosError (Some \<lparr>resp_status = 307, resp_set_cookie = None\<rparr>))"
proof -
  let ?w = "url_world [http_cookie 303 [''_vercel_jwt=abc123'']] NoResponse [] NoResponse"
  let ?v = "url_world [http 303] NoResponse [] NoResponse"
  let ?x = "url_world [http 307] NoResponse [] NoResponse"
  let ?c = "\<lparr>cookie_name = ''_vercel_jwt'', cookie_value = ''abc123''\<rparr>"
  have w: "post_reply ?w 0 =
      Response \<lparr>resp_status = 303, resp_set_cookie = Some [''_vercel_jwt=abc123'']\<rparr>"
    and v: "post_reply ?v 0 = Response \<lparr>resp_status = 303, resp_set_cookie = None\<rparr>"
    and x: "post_reply ?x 0 = Response \<lparr>resp_status = 307, resp_set_cookie = None\<rparr>"
    by (simp_all add: url_world_def quiet_world_def script_def http_cookie_def http_def)
  have p: "parseCookies ?w [''_vercel_jwt=abc123''] = [] @ ?c # []"
    using split_cookie_jwt by (simp add: url_world_def quiet_world_def)
  note d1 = getPassword_exchange [of ?w 0 "''https://preview.example.com''" "''secret''"
      "\<lparr>resp_status = 303, resp_set_cookie = Some [''_vercel_jwt=abc123'']\<rparr>"
      "[''_vercel_jwt=abc123'']" "[]" ?c "[]"]
  note d2 = getPassword_exchange [of ?v 0 "''https://preview.example.com''" "''secret''"
      "\<lparr>resp_status = 303, resp_set_cookie = None\<rparr>"]
  note d3 = getPassword_exchange [of ?x 0 "''https://preview.example.com''" "''secret''"
      "\<lparr>resp_status = 307, resp_set_cookie = None\<rparr>"]
  have r1: "fst (getPassword ?w 0 ''https://preview.example.com'' ''secret'') = Inr ''abc123''"
    using d1 w p by simp
  have r2: "fst (getPassword ?v 0 ''https://preview.example.com'' ''secret'') =
      Inl (JsError ''no vercel JWT in response'')"
    using d2 v by simp
  have r3: "fst (getPassword ?x 0 ''https://preview.example.com'' ''secret'') =
      Inl (AxiosError (Some \<lparr>resp_status = 307, resp_set_cookie = None\<rparr>))"
    using d3 x by simp
  show ?thesis using w p r1 r2 r3 by blast
qed

section \<open>Resolving the commit of a pull request: the number used\<close>

text \<open>
  C10. The result of \<open>getShaForPullRequest\<close>, value and events, is the same for any two
  values of its \<open>number\<close> argument: the pull request that is looked up is the one named
  in the workflow context, whatever the API would answer for other numbers.
\<close>

theorem getShaForPullRequest_ignores_number:
  "getShaForPullRequest ctx env owner repo number1 =
     getShaForPullRequest ctx env owner repo number2
   \<and> (PullsGet owner' repo' n \<in> set (snd (getShaForPullRequest ctx env owner repo number1))
      \<longrightarrow> map_option pr_number (ctx_pull_request ctx) = Some n)"
  by (auto simp: getShaForPullRequest_def split: option.splits sum.splits if_splits)

theorem getShaForPullRequest_ignores_number_witness:
  "PullsGet ''o'' ''r'' 7 \<in>
     set (snd (getShaForPullRequest (pr_context 7)
                 (pulls_world (\<lambda>n. Inr \<lparr>pr_status = 200,
                                         head_sha = (if n = 7 then ''abc'' else ''other'')\<rparr>))
                 ''o'' ''r'' 99))
   \<and> map_option pr_number (ctx_pull_request (pr_context 7)) = Some 7
   \<and> getShaForPullRequest (pr_context 7)
        (pulls_world (\<lambda>n. Inr \<lparr>pr_status = 200,
                                head_sha = (if n = 7 then ''abc'' else ''other'')\<rparr>))
        ''o'' ''r'' 99 =
      (Inr (Some ''abc''), [PullsGet ''o'' ''r'' 7])"
proof -
  let ?w = "pulls_world (\<lambda>n. Inr \<lparr>pr_status = 200,
                                    head_sha = (if n = 7 then ''abc'' else ''other'')\<rparr>)"
  have r: "getShaForPullRequest (pr_context 7) ?w ''o'' ''r'' 7 =
      (Inr (Some ''abc''), [PullsGet ''o'' ''r'' 7])"
    by (simp add: getShaForPullRequest_def pr_context_def pulls_world_def quiet_world_def)
  note d = getShaForPullRequest_ignores_number
    [of "pr_context 7" ?w "''o''" "''r''" 99 7 "''o''" "''r''" 7]
  show ?thesis using d r by simp
qed

section \<open>A missing token in the URL health waiter\<close>

lemmas run_eval =
  run_def push_context_def short_inputs_def preview_world_def quiet_world_def js_or_def
  waitForDeploymentToStart_def waitForDeploymentToStart_loop.simps
  waitForDeploymentToStart_try_def waitForStatus_def waitForStatus_loop.simps
  waitForStatus_try_def calculateIterations_def deployment_by_def status_of_def
  waitForUrl_def waitForUrl_loop.simps waitForUrl_try_def getPassword_def
  getPassword_request_def axios_settle_def axios_default_validateStatus_def
  getPassword_validateStatus_def http_def http_cookie_def script_def split_cookie_def
  get_request_def url_world_def Let_def

lemma find_filter:
  "find P xs = (case filter P xs of [] \<Rightarrow> None | x # ys \<Rightarrow> Some x)"
  by (induction xs) auto

lemma getPassword_lacks_jwt:
  "fst (getPassword env i url pw) = Inl (JsError ''no vercel JWT in response'') \<longleftrightarrow>
     lacks_jwt env (post_reply env i)"
  by (auto simp: getPassword_def lacks_jwt_def Let_def axios_settle_def
      getPassword_validateStatus_def find_filter
      split: reply.splits option.splits list.splits)

lemma waitForUrl_try_exchange_fails:
  assumes "pw \<noteq> []" and "fst (getPassword env i url pw) = Inl e"
  shows "waitForUrl_try env i url (Some pw) pbh path =
           (Inl e, [Request (getPassword_request url pw)])"
proof -
  have "getPassword env i url pw = (Inl e, [Request (getPassword_request url pw)])"
    using assms(2) getPassword_events [of env i url pw]
    by (cases "getPassword env i url pw") simp
  then show ?thesis using assms(1) by (simp add: waitForUrl_try_def)
qed

text \<open>
  C3, as the claim states it, fails. The exchange below is answered without the cookie, and
  the run does not stop there: the waiter sleeps and repeats the exchange until its budget
  is used up, and the failure it reports is the timeout.
\<close>

theorem missing_cookie_counterexample:
  "fst (getPassword (preview_world (http 303) [] (http 200)) 0 ''https://preview.example.com''
          ''secret'') = Inl (JsError ''no vercel JWT in response'')
   \<and> run push_context (short_inputs ''secret'' []) (preview_world (http 303) [] (http 200)) =
      Some [ListDeployments ''o'' ''r'' ''abc'' (Some []),
            ListDeploymentStatuses ''o'' ''r'' 1,
            SetOutput ''url'' ''https://preview.example.com'',
            Request (getPassword_request ''https://preview.example.com'' ''secret''),
            Wait (Num 2000),
            Request (getPassword_request ''https://preview.example.com'' ''secret''),
            Wait (Num 2000),
            SetFailed ''Timeout reached: Unable to connect to https://preview.example.com'']"
  by (simp add: run_eval)

text \<open>
  C3, amended. When a password is configured and the response to the exchange of an attempt
  lacks the token, the missing-token error ends that attempt only: the attempt has issued
  the POST and nothing else, and the waiter sleeps and goes on to the next attempt. When
  every attempt of a finite budget ends so, the waiter reports one failure, its timeout.
\<close>

theorem missing_cookie_retried:
  "(pw \<noteq> [] \<and> lacks_jwt env (post_reply env i) \<longrightarrow>
      waitForUrl_try env i url (Some pw) pbh path =
        (Inl (JsError ''no vercel JWT in response''), [Request (getPassword_request url pw)])
      \<and> (js_lt (Num (of_nat i)) its \<longrightarrow>
           waitForUrl_loop env url ci (Some pw) pbh path its i t =
           waitForUrl_loop env url ci (Some pw) pbh path its (i + 1)
             (t @ [Request (getPassword_request url pw), Wait ci])))
   \<and> (pw \<noteq> [] \<and> calculateIterations mt ci = Num (of_int N)
        \<and> (\<forall>j<nat N. lacks_jwt env (post_reply env j))
      \<longrightarrow> waitForUrl env url mt ci (Some pw) pbh path t =
            Some (t @ concat (replicate (nat N) [Request (getPassword_request url pw), Wait ci])
                    @ [SetFailed (''Timeout reached: Unable to connect to '' @ url)]))"
proof (intro conjI impI)
  assume a: "pw \<noteq> [] \<and> lacks_jwt env (post_reply env i)"
  then show tr: "waitForUrl_try env i url (Some pw) pbh path =
      (Inl (JsError ''no vercel JWT in response''), [Request (getPassword_request url pw)])"
    by (intro waitForUrl_try_exchange_fails) (simp_all add: getPassword_lacks_jwt)
  assume "js_lt (Num (of_nat i)) its"
  then show "waitForUrl_loop env url ci (Some pw) pbh path its i t =
           waitForUrl_loop env url ci (Some pw) pbh path its (i + 1)
             (t @ [Request (getPassword_request url pw), Wait ci])"
    using tr by (subst waitForUrl_loop.simps) simp
next
  assume a: "pw \<noteq> [] \<and> calculateIterations mt ci = Num (of_int N)
        \<and> (\<forall>j<nat N. lacks_jwt env (post_reply env j))"
  then have tr: "\<And>j. j < nat N \<Longrightarrow> waitForUrl_try env j url (Some pw) pbh path =
      (Inl (JsError ''no vercel JWT in response''), [Request (getPassword_request url pw)])"
    by (intro waitForUrl_try_exchange_fails) (simp_all add: getPassword_lacks_jwt)
  have "map (\<lambda>j. snd (waitForUrl_try env j url (Some pw) pbh path) @ [Wait ci]) [0..<nat N] =
      map (\<lambda>j. [Request (getPassword_request url pw), Wait ci]) [0..<nat N]"
    by (rule map_cong) (simp_all add: tr)
  also have "\<dots> = replicate (nat N) [Request (getPassword_request url pw), Wait ci]"
    by (simp add: map_replicate_const)
  finally have m: "concat (map (\<lambda>j. snd (waitForUrl_try env j url (Some pw) pbh path)
      @ [Wait ci]) [0..<nat N]) =
      concat (replicate (nat N) [Request (getPassword_request url pw), Wait ci])"
    by simp
  have "waitForUrl env url mt ci (Some pw) pbh path t =
      Some (t @ concat (map (\<lambda>j. snd (waitForUrl_try env j url (Some pw) pbh path)
                                  @ [Wait ci]) [0..<nat N])
              @ [SetFailed (''Timeout reached: Unable to connect to '' @ url)])"
    using a by (intro waitForUrl_exhausted) (simp_all add: tr)
  then show "waitForUrl env url mt ci (Some pw) pbh path t =
            Some (t @ concat (replicate (nat N) [Request (getPassword_request url pw), Wait ci])
                    @ [SetFailed (''Timeout reached: Unable to connect to '' @ url)])"
    by (simp only: m)
qed

theorem missing_cookie_retried_witness:
  "''secret'' \<noteq> []
   \<and> lacks_jwt (url_world [http 303] (http_cookie 303 [''_vercel_jwt=abc123'']) [] (http 200))
        (post_reply
           (url_world [http 303] (http_cookie 303 [''_vercel_jwt=abc123'']) [] (http 200)) 0)
   \<and> waitForUrl (url_world [http 303] (http_cookie 303 [''_vercel_jwt=abc123'']) [] (http 200))
        ''https://preview.example.com'' (Num 4) (Num 2000) (Some ''secret'') None ''/'' [] =
      Some [Request (getPassword_request ''https://preview.example.com'' ''secret''),
            Wait (Num 2000),
            Request (getPassword_request ''https://preview.example.com'' ''secret''),
            SetOutput ''vercel_jwt'' ''abc123'',
            Request (get_request ''https://preview.example.com/''
                       [(''Cookie'', ''_vercel_jwt=abc123'')])]
   \<and> calculateIterations (Num 4) (Num 2000) = Num (of_int 2)
   \<and> waitForUrl (url_world [] (http 303) [] (http 200))
        ''https://preview.example.com'' (Num 4) (Num 2000) (Some ''secret'') None ''/'' [] =
      Some [Request (getPassword_request ''https://preview.example.com'' ''secret''),
            Wait (Num 2000),
            Request (getPassword_request ''https://preview.example.com'' ''secret''),
            Wait (Num 2000),
            SetFailed ''Timeout reached: Unable to connect to https://preview.example.com'']"
proof -
  let ?w = "url_world [http 303] (http_cookie 303 [''_vercel_jwt=abc123'']) [] (http 200)"
  let ?v = "url_world [] (http 303) [] (http 200)"
  let ?u = "''https://preview.example.com''"
  have b2: "calculateIterations (Num 4) (Num 2000) = Num (of_int 2)"
    by (simp add: calculateIterations_def)
  have lw: "lacks_jwt ?w (post_reply ?w 0)"
    and lv: "\<And>j. lacks_jwt ?v (post_reply ?v j)"
    by (simp_all add: lacks_jwt_def url_world_def quiet_world_def script_def http_def)
  have lt: "js_lt (Num (of_nat 0)) (calculateIterations (Num 4) (Num 2000))"
    by (simp add: b2)
  note d1 = missing_cookie_retried [of "''secret''" ?w 0 ?u None "''/''"
      "calculateIterations (Num 4) (Num 2000)" "Num 2000" "[]" "Num 4" 2]
  note d2 = missing_cookie_retried [of "''secret''" ?v 0 ?u None "''/''"
      "calculateIterations (Num 4) (Num 2000)" "Num 2000" "[]" "Num 4" 2]
  have "waitForUrl ?w ?u (Num 4) (Num 2000) (Some ''secret'') None ''/'' [] =
      waitForUrl_loop ?w ?u (Num 2000) (Some ''secret'') None ''/''
        (calculateIterations (Num 4) (Num 2000)) (0 + 1)
        ([] @ [Request (getPassword_request ?u ''secret''), Wait (Num 2000)])"
    using d1 lw lt unfolding waitForUrl_def by simp
  also have "\<dots> =
      Some [Request (getPassword_request ''https://preview.example.com'' ''secret''),
            Wait (Num 2000),
            Request (getPassword_request ''https://preview.example.com'' ''secret''),
            SetOutput ''vercel_jwt'' ''abc123'',
            Request (get_request ''https://preview.example.com/''
                       [(''Cookie'', ''_vercel_jwt=abc123'')])]"
    by (simp add: run_eval)
  finally have r1: "waitForUrl ?w ?u (Num 4) (Num 2000) (Some ''secret'') None ''/'' [] =
      Some [Request (getPassword_request ''https://preview.example.com'' ''secret''),
            Wait (Num 2000),
            Request (getPassword_request ''https://preview.example.com'' ''secret''),
            SetOutput ''vercel_jwt'' ''abc123'',
            Request (get_request ''https://preview.example.com/''
                       [(''Cookie'', ''_vercel_jwt=abc123'')])]" .
  have r2: "waitForUrl ?v ?u (Num 4) (Num 2000) (Some ''secret'') None ''/'' [] =
      Some [Request (getPassword_request ''https://preview.example.com'' ''secret''),
            Wait (Num 2000),
            Request (getPassword_request ''https://preview.example.com'' ''secret''),
            Wait (Num 2000),
            SetFailed ''Timeout reached: Unable to connect to https://preview.example.com'']"
    using d2 b2 lv by (simp add: numeral_2_eq_2)
  show ?thesis using lw b2 r1 r2 by simp
qed

section \<open>The traces of the waiters\<close>

lemma waitForUrl_loop_trace:
  assumes "waitForUrl_loop env url ci vp pbh path its i t = Some t'"
  shows "\<exists>k\<ge>i. t' = t @ concat (map (\<lambda>j. snd (waitForUrl_try env j url vp pbh path) @ [Wait ci])
                                [i..<k])
            @ (if js_lt (Num (of_nat k)) its then snd (waitForUrl_try env k url vp pbh path)
               else [SetFailed (''Timeout reached: Unable to connect to '' @ url)])"
  using assms
proof (induction env url ci vp pbh path its i t t'
    rule: waitForUrl_loop.raw_induct [rotated 1, consumes 1])
  case (1 loop env url ci vp pbh path its i t t')
  show ?case
  proof (cases "js_lt (Num (of_nat i)) its")
    case False
    with 1(2) have "t' = t @ [SetFailed (''Timeout reached: Unable to connect to '' @ url)]"
      by simp
    with False show ?thesis by (intro exI [of _ i]) simp
  next
    case True
    obtain r es where tr: "waitForUrl_try env i url vp pbh path = (r, es)"
      by (cases "waitForUrl_try env i url vp pbh path")
    show ?thesis
    proof (cases r)
      case (Inr u)
      with 1(2) True tr have "t' = t @ es" by simp
      with True tr show ?thesis by (intro exI [of _ i]) simp
    next
      case (Inl e)
      with 1(2) True tr
      have "loop env url ci vp pbh path its (i + 1) (t @ es @ [Wait ci]) = Some t'"
        by simp
      from 1(1) [OF this] obtain k where k: "i + 1 \<le> k"
        and t': "t' = (t @ es @ [Wait ci])
            @ concat (map (\<lambda>j. snd (waitForUrl_try env j url vp pbh path) @ [Wait ci])
                        [i + 1..<k])
            @ (if js_lt (Num (of_nat k)) its then snd (waitForUrl_try env k url vp pbh path)
               else [SetFailed (''Timeout reached: Unable to connect to '' @ url)])"
        by blast
      have "[i..<k] = i # [i + 1..<k]" using k by (simp add: upt_conv_Cons)
      with t' tr k show ?thesis by (intro exI [of _ k]) simp
    qed
  qed
qed

lemma waitForUrl_try_password_events:
  assumes "pw \<noteq> []"
  shows "snd (waitForUrl_try env j url (Some pw) pbh path) =
     Request (getPassword_request url pw) #
       (case fst (getPassword env j url pw) of
          Inl e \<Rightarrow> []
        | Inr jwt \<Rightarrow>
            SetOutput ''vercel_jwt'' jwt #
              (case new_URL env path url of
                 Inl e \<Rightarrow> []
               | Inr checkUri \<Rightarrow>
                   [Request (get_request checkUri
                      (case pbh of
                         None \<Rightarrow> [(''Cookie'', ''_vercel_jwt='' @ jwt)]
                       | Some h \<Rightarrow>
                           if h = [] then [(''Cookie'', ''_vercel_jwt='' @ jwt)]
                           else [(''x-vercel-protection-bypass'', h)]))]))"
proof -
  obtain r where "getPassword env j url pw = (r, [Request (getPassword_request url pw)])"
    using getPassword_events [of env j url pw] by (cases "getPassword env j url pw") simp
  then show ?thesis
    using assms
    by (simp add: waitForUrl_try_def get_request_def Let_def split: sum.splits option.splits)
qed

lemma waitForUrl_try_no_poll:
  "e \<in> set (snd (waitForUrl_try env j url vp pbh path)) \<Longrightarrow> \<not> is_status_poll e"
  by (auto simp: waitForUrl_try_def getPassword_def Let_def
      split: sum.splits option.splits prod.splits if_splits)

lemma waitForUrl_no_poll:
  assumes "waitForUrl env url mt ci vp pbh path t = Some T"
  shows "\<exists>b. T = t @ b \<and> (\<forall>e \<in> set b. \<not> is_status_poll e)"
proof -
  from assms obtain k where
    "T = t @ concat (map (\<lambda>j. snd (waitForUrl_try env j url vp pbh path) @ [Wait ci]) [0..<k])
       @ (if js_lt (Num (of_nat k)) (calculateIterations mt ci)
          then snd (waitForUrl_try env k url vp pbh path)
          else [SetFailed (''Timeout reached: Unable to connect to '' @ url)])"
    unfolding waitForUrl_def using waitForUrl_loop_trace by blast
  then show ?thesis
    by (intro exI [of _ "concat (map (\<lambda>j. snd (waitForUrl_try env j url vp pbh path)
        @ [Wait ci]) [0..<k])
       @ (if js_lt (Num (of_nat k)) (calculateIterations mt ci)
          then snd (waitForUrl_try env k url vp pbh path)
          else [SetFailed (''Timeout reached: Unable to connect to '' @ url)])"])
      (auto dest: waitForUrl_try_no_poll)
qed

lemma waitForStatus_loop_no_request:
  assumes "waitForStatus_loop env owner repo did ai ci its i t = Some y"
    and "\<forall>e \<in> set t. \<not> is_request e"
  shows "\<forall>e \<in> set (snd y). \<not> is_request e"
  using assms
proof (induction env owner repo did ai ci its i t y
    rule: waitForStatus_loop.raw_induct [rotated 1, consumes 1])
  case (1 loop env owner repo did ai ci its i t y)
  obtain r where tr:
    "waitForStatus_try env i owner repo did ai = (r, [ListDeploymentStatuses owner repo did])"
    using waitForStatus_try_events [of env i owner repo did ai]
    by (cases "waitForStatus_try env i owner repo did ai") simp
  show ?case
  proof (cases "js_lt (Num (of_nat i)) its")
    case False
    with 1(2,3) show ?thesis by auto
  next
    case True
    show ?thesis
    proof (cases r)
      case (Inr s)
      with 1(2,3) True tr show ?thesis by auto
    next
      case (Inl e)
      with 1(2) True tr
      have "loop env owner repo did ai ci its (i + 1)
          (t @ [ListDeploymentStatuses owner repo did] @ [Wait ci]) = Some y"
        by simp
      from 1(1) [OF this] 1(3) show ?thesis by simp
    qed
  qed
qed

lemma waitForDeploymentToStart_loop_no_request:
  assumes "waitForDeploymentToStart_loop env owner repo sha environment actorName ci its i t =
      Some y"
    and "\<forall>e \<in> set t. \<not> is_request e"
  shows "\<forall>e \<in> set (snd y). \<not> is_request e"
  using assms
proof (induction env owner repo sha environment actorName ci its i t y
    rule: waitForDeploymentToStart_loop.raw_induct [rotated 1, consumes 1])
  case (1 loop env owner repo sha environment actorName ci its i t y)
  obtain r where tr:
    "waitForDeploymentToStart_try env i owner repo sha environment actorName =
       (r, [ListDeployments owner repo sha environment])"
    using waitForDeploymentToStart_try_events [of env i owner repo sha environment actorName]
    by (cases "waitForDeploymentToStart_try env i owner repo sha environment actorName") simp
  show ?case
  proof (cases "js_lt (Num (of_nat i)) its")
    case False
    with 1(2,3) show ?thesis by auto
  next
    case True
    show ?thesis
    proof (cases "\<exists>d. r = Inr (Some d)")
      case True
      with 1(2,3) \<open>js_lt (Num (of_nat i)) its\<close> tr show ?thesis by auto
    next
      case False
      with 1(2) True tr
      have "loop env owner repo sha environment actorName ci its (i + 1)
          (t @ [ListDeployments owner repo sha environment] @ [Wait ci]) = Some y"
        by (auto split: sum.splits option.splits)
      from 1(1) [OF this] 1(3) show ?thesis by simp
    qed
  qed
qed

lemma getShaForPullRequest_no_request:
  "\<forall>e \<in> set (snd (getShaForPullRequest ctx env owner repo number)). \<not> is_request e"
  by (simp add: getShaForPullRequest_def split: option.splits sum.splits)

lemma run_url_part:
  assumes "run ctx inp env = Some T"
  shows "(\<forall>e \<in> set T. \<not> is_request e)
     \<or> (\<exists>a targetUrl. (\<forall>e \<in> set a. \<not> is_request e)
           \<and> waitForUrl env targetUrl (js_or (input_max_timeout inp) (Num 60))
                (js_mul (js_or (input_check_interval inp) (Num 2)) (Num 1000))
                (Some (input_vercel_password inp))
                (Some (input_vercel_protection_bypass_header inp))
                (if input_path inp = [] then ''/'' else input_path inp) a = Some T)"
proof -
  let ?mt = "js_or (input_max_timeout inp) (Num 60)"
  let ?ci = "js_mul (js_or (input_check_interval inp) (Num 2)) (Num 1000)"
  let ?sha = "case ctx_pull_request ctx of
      Some pr \<Rightarrow> getShaForPullRequest ctx env (ctx_owner ctx) (ctx_repo ctx) (pr_number pr)
    | None \<Rightarrow> if ctx_sha ctx \<noteq> [] then (Inr (Some (ctx_sha ctx)), []) else (Inr None, [])"
  have sha_quiet: "\<forall>e \<in> set (snd ?sha). \<not> is_request e"
    using getShaForPullRequest_no_request by (simp split: option.splits)
  show ?thesis
  proof (cases "\<exists>e \<in> set T. is_request e")
    case False
    then show ?thesis by blast
  next
    case True
    obtain r es where sha: "?sha = (r, es)" by (cases ?sha)
    with sha_quiet have es: "\<forall>e \<in> set es. \<not> is_request e" by simp
    from assms True es sha obtain tok ai s where
      tok: "input_token inp = Inr tok" "tok \<noteq> []"
      and ai: "input_allow_inactive inp = Inr ai"
      and r: "r = Inr (Some s)" "s \<noteq> []"
      and rest: "Option.bind
          (waitForDeploymentToStart env (ctx_owner ctx) (ctx_repo ctx) s
             (Some (input_environment inp)) (Some ''vercel[bot]'') (Some ?mt) (Some ?ci) es)
          (\<lambda>(deployment, t1).
             case deployment of
               None \<Rightarrow> Some (t1 @ [SetFailed ''no vercel deployment found, exiting...''])
             | Some d \<Rightarrow>
                 Option.bind
                   (waitForStatus env (ctx_owner ctx) (ctx_repo ctx) (dep_id d) ?mt ai ?ci t1)
                   (\<lambda>(status, t2).
                      case Option.bind status target_url of
                        None \<Rightarrow>
                          Some (t2 @ [SetFailed ''no target_url found in the status check''])
                      | Some targetUrl \<Rightarrow>
                          if targetUrl = []
                          then Some (t2 @ [SetFailed
                                 ''no target_url found in the status check''])
                          else waitForUrl env targetUrl ?mt ?ci
                                 (Some (input_vercel_password inp))
                                 (Some (input_vercel_protection_bypass_header inp))
                                 (if input_path inp = [] then ''/'' else input_path inp)
                                 (t2 @ [SetOutput ''url'' targetUrl]))) = Some T"
      unfolding run_def Let_def
      by (auto split: sum.splits option.splits if_splits)
    from rest obtain dep t1 where
      start: "waitForDeploymentToStart env (ctx_owner ctx) (ctx_repo ctx) s
             (Some (input_environment inp)) (Some ''vercel[bot]'') (Some ?mt) (Some ?ci) es =
           Some (dep, t1)"
      and rest1: "(case dep of
               None \<Rightarrow> Some (t1 @ [SetFailed ''no vercel deployment found, exiting...''])
             | Some d \<Rightarrow>
                 Option.bind
                   (waitForStatus env (ctx_owner ctx) (ctx_repo ctx) (dep_id d) ?mt ai ?ci t1)
                   (\<lambda>(status, t2).
                      case Option.bind status target_url of
                        None \<Rightarrow>
                          Some (t2 @ [SetFailed ''no target_url found in the status check''])
                      | Some targetUrl \<Rightarrow>
                          if targetUrl = []
                          then Some (t2 @ [SetFailed
                                 ''no target_url found in the status check''])
                          else waitForUrl env targetUrl ?mt ?ci
                                 (Some (input_vercel_password inp))
                                 (Some (input_vercel_protection_bypass_header inp))
                                 (if input_path inp = [] then ''/'' else input_path inp)
                                 (t2 @ [SetOutput ''url'' targetUrl]))) = Some T"
      by (auto simp: bind_eq_Some_conv)
    have t1: "\<forall>e \<in> set t1. \<not> is_request e"
      using start es waitForDeploymentToStart_loop_no_request
      unfolding waitForDeploymentToStart_def Let_def option.case by fastforce
    from rest1 True t1 obtain d where dep: "dep = Some d"
      by (cases dep) auto
    with rest1 obtain status t2 where
      st: "waitForStatus env (ctx_owner ctx) (ctx_repo ctx) (dep_id d) ?mt ai ?ci t1 =
          Some (status, t2)"
      and rest2: "(case Option.bind status target_url of
                        None \<Rightarrow>
                          Some (t2 @ [SetFailed ''no target_url found in the status check''])
                      | Some targetUrl \<Rightarrow>
                          if targetUrl = []
                          then Some (t2 @ [SetFailed
                                 ''no target_url found in the status check''])
                          else waitForUrl env targetUrl ?mt ?ci
                                 (Some (input_vercel_password inp))
                                 (Some (input_vercel_protection_bypass_header inp))
                                 (if input_path inp = [] then ''/'' else input_path inp)
                                 (t2 @ [SetOutput ''url'' targetUrl])) = Some T"
      by (auto simp: bind_eq_Some_conv)
    have t2: "\<forall>e \<in> set t2. \<not> is_request e"
      using st t1 waitForStatus_loop_no_request unfolding waitForStatus_def by fastforce
    from rest2 True t2 obtain targetUrl where
      "waitForUrl env targetUrl ?mt ?ci (Some (input_vercel_password inp))
         (Some (input_vercel_protection_bypass_header inp))
         (if input_path inp = [] then ''/'' else input_path inp)
         (t2 @ [SetOutput ''url'' targetUrl]) = Some T"
      by (cases "Option.bind status target_url") (auto split: if_splits)
    moreover have "\<forall>e \<in> set (t2 @ [SetOutput ''url'' targetUrl]). \<not> is_request e"
      using t2 by simp
    ultimately show ?thesis by blast
  qed
qed


lemma waitForUrl_try_one_exchange:
  assumes "pw \<noteq> []"
  shows "\<exists>rest. snd (waitForUrl_try env j url (Some pw) pbh path) =
           Request (getPassword_request url pw) # rest
         \<and> (\<forall>e \<in> set rest. \<not> is_exchange e)"
  unfolding waitForUrl_try_password_events [OF assms]
  by (auto simp: get_request_def split: sum.splits)



lemma exchanges_per_attempt:
  assumes "\<And>j. length (filter is_exchange (f j)) = 1"
  shows "length (filter is_exchange (concat (map f [0..<k]))) = k"
  by (induction k) (simp_all add: assms)

lemma waitForUrl_exchange_count:
  assumes "pw \<noteq> []"
    and "waitForUrl env url mt ci (Some pw) pbh path t = Some T"
  shows "\<exists>k es. T = t @ es
     \<and> es = concat (map (\<lambda>j. snd (waitForUrl_try env j url (Some pw) pbh path) @ [Wait ci])
                      [0..<k])
            @ (if js_lt (Num (of_nat k)) (calculateIterations mt ci)
               then snd (waitForUrl_try env k url (Some pw) pbh path)
               else [SetFailed (''Timeout reached: Unable to connect to '' @ url)])
     \<and> length (filter is_exchange es) =
         (if js_lt (Num (of_nat k)) (calculateIterations mt ci) then k + 1 else k)"
proof -
  let ?ev = "\<lambda>j. snd (waitForUrl_try env j url (Some pw) pbh path)"
  let ?f = "\<lambda>j. ?ev j @ [Wait ci]"
  let ?its = "calculateIterations mt ci"
  from assms(2) obtain k where T: "T = t @ concat (map ?f [0..<k])
       @ (if js_lt (Num (of_nat k)) ?its then ?ev k
          else [SetFailed (''Timeout reached: Unable to connect to '' @ url)])"
    unfolding waitForUrl_def using waitForUrl_loop_trace by blast
  have one: "length (filter is_exchange (?ev j)) = 1" for j
  proof -
    from waitForUrl_try_one_exchange [OF assms(1), of env j url pbh path] obtain rest
      where "?ev j = Request (getPassword_request url pw) # rest"
        and "\<forall>e \<in> set rest. \<not> is_exchange e" by blast
    then show ?thesis by (simp add: getPassword_request_def)
  qed
  then have "length (filter is_exchange (?f j)) = 1" for j by simp
  then have "length (filter is_exchange (concat (map ?f [0..<k]))) = k"
    by (rule exchanges_per_attempt)
  with one [of k] T show ?thesis
    by (intro exI [of _ k] exI [of _ "concat (map ?f [0..<k])
       @ (if js_lt (Num (of_nat k)) ?its then ?ev k
          else [SetFailed (''Timeout reached: Unable to connect to '' @ url)])"]) simp
qed

lemma run_polls_before_exchanges:
  assumes "run ctx inp env = Some T"
    and "m < length T" and "n < length T"
    and "is_status_poll (T ! m)" and "is_exchange (T ! n)"
  shows "m < n"
proof -
  have ex: "is_request (T ! n)" using assms(5) by (cases "T ! n") simp_all
  from run_url_part [OF assms(1)] ex assms(3) obtain a targetUrl where
    a: "\<forall>e \<in> set a. \<not> is_request e"
    and "waitForUrl env targetUrl (js_or (input_max_timeout inp) (Num 60))
                (js_mul (js_or (input_check_interval inp) (Num 2)) (Num 1000))
                (Some (input_vercel_password inp))
                (Some (input_vercel_protection_bypass_header inp))
                (if input_path inp = [] then ''/'' else input_path inp) a = Some T"
    using nth_mem by blast
  from waitForUrl_no_poll [OF this(2)] obtain b where
    T: "T = a @ b" and b: "\<forall>e \<in> set b. \<not> is_status_poll e" by blast
  have "m < length a"
  proof (rule ccontr)
    assume "\<not> m < length a"
    with T assms(2) have "T ! m \<in> set b" by (simp add: nth_append)
    with b assms(4) show False by blast
  qed
  moreover have "length a \<le> n"
  proof (rule ccontr)
    assume "\<not> length a \<le> n"
    with T have "T ! n \<in> set a" by (simp add: nth_append)
    with a ex show False by blast
  qed
  ultimately show ?thesis by simp
qed

section \<open>Password and bypass header together\<close>



section \<open>The place of the password exchange\<close>

text \<open>
  C4, as the claim states it, fails. In the run below the first health check is answered
  with 500: the exchange is made again in the second attempt, after the first health
  check, inside the loop.
\<close>

theorem exchange_once_counterexample:
  "run push_context (short_inputs ''secret'' [])
     (preview_world (http_cookie 303 [''_vercel_jwt=abc123'']) [http 500] (http 200)) =
      Some [ListDeployments ''o'' ''r'' ''abc'' (Some []),
            ListDeploymentStatuses ''o'' ''r'' 1,
            SetOutput ''url'' ''https://preview.example.com'',
            Request (getPassword_request ''https://preview.example.com'' ''secret''),
            SetOutput ''vercel_jwt'' ''abc123'',
            Request (get_request ''https://preview.example.com/''
                       [(''Cookie'', ''_vercel_jwt=abc123'')]),
            Wait (Num 2000),
            Request (getPassword_request ''https://preview.example.com'' ''secret''),
            SetOutput ''vercel_jwt'' ''abc123'',
            Request (get_request ''https://preview.example.com/''
                       [(''Cookie'', ''_vercel_jwt=abc123'')])]"
  by (simp add: run_eval)

text \<open>
  C4, amended. In every run, each password exchange comes after every poll of the
  deployment status waiter. With a password configured, every attempt of the URL health
  waiter begins with its own exchange and makes no other, so that the exchange precedes
  the health check of the same attempt; and the waiter makes as many exchanges as it
  makes attempts: one for each attempt that threw, and one more for the attempt that
  returned.
\<close>

theorem exchange_in_every_attempt:
  "(run ctx inp env = Some R \<and> m < length R \<and> n < length R
      \<and> is_status_poll (R ! m) \<and> is_exchange (R ! n) \<longrightarrow> m < n)
   \<and> (pw \<noteq> [] \<longrightarrow>
        (\<exists>rest. snd (waitForUrl_try env j url (Some pw) pbh path) =
                  Request (getPassword_request url pw) # rest
               \<and> (\<forall>e \<in> set rest. \<not> is_exchange e)))
   \<and> (pw \<noteq> [] \<and> waitForUrl env url mt ci (Some pw) pbh path t = Some T \<longrightarrow>
        (\<exists>k es. T = t @ es
           \<and> es = concat (map (\<lambda>j. snd (waitForUrl_try env j url (Some pw) pbh path)
                                    @ [Wait ci]) [0..<k])
                  @ (if js_lt (Num (of_nat k)) (calculateIterations mt ci)
                     then snd (waitForUrl_try env k url (Some pw) pbh path)
                     else [SetFailed (''Timeout reached: Unable to connect to '' @ url)])
           \<and> length (filter is_exchange es) =
               (if js_lt (Num (of_nat k)) (calculateIterations mt ci) then k + 1 else k)))"
proof (intro conjI impI)
  assume "run ctx inp env = Some R \<and> m < length R \<and> n < length R
      \<and> is_status_poll (R ! m) \<and> is_exchange (R ! n)"
  then show "m < n" using run_polls_before_exchanges [of ctx inp env R m n] by blast
next
  assume "pw \<noteq> []"
  then show "\<exists>rest. snd (waitForUrl_try env j url (Some pw) pbh path) =
                  Request (getPassword_request url pw) # rest
               \<and> (\<forall>e \<in> set rest. \<not> is_exchange e)"
    by (rule waitForUrl_try_one_exchange)
next
  assume "pw \<noteq> [] \<and> waitForUrl env url mt ci (Some pw) pbh path t = Some T"
  then show "\<exists>k es. T = t @ es
           \<and> es = concat (map (\<lambda>j. snd (waitForUrl_try env j url (Some pw) pbh path)
                                    @ [Wait ci]) [0..<k])
                  @ (if js_lt (Num (of_nat k)) (calculateIterations mt ci)
                     then snd (waitForUrl_try env k url (Some pw) pbh path)
                     else [SetFailed (''Timeout reached: Unable to connect to '' @ url)])
           \<and> length (filter is_exchange es) =
               (if js_lt (Num (of_nat k)) (calculateIterations mt ci) then k + 1 else k)"
    using waitForUrl_exchange_count [of pw env url mt ci pbh path t T] by blast
qed

theorem exchange_in_every_attempt_witness:
  "run push_context (short_inputs ''secret'' [])
     (preview_world (http_cookie 303 [''_vercel_jwt=abc123'']) [http 500] (http 200)) =
      Some (retried_run_trace [(''Cookie'', ''_vercel_jwt=abc123'')])
   \<and> is_status_poll (retried_run_trace [(''Cookie'', ''_vercel_jwt=abc123'')] ! 1)
   \<and> is_exchange (retried_run_trace [(''Cookie'', ''_vercel_jwt=abc123'')] ! 3)
   \<and> is_exchange (retried_run_trace [(''Cookie'', ''_vercel_jwt=abc123'')] ! 7)
   \<and> (1 :: nat) < 7
   \<and> ''secret'' \<noteq> []
   \<and> (\<exists>rest. snd (waitForUrl_try
                    (preview_world (http_cookie 303 [''_vercel_jwt=abc123'']) [http 500]
                       (http 200))
                    1 ''https://preview.example.com'' (Some ''secret'') None ''/'') =
               Request (getPassword_request ''https://preview.example.com'' ''secret'') # rest
             \<and> (\<forall>e \<in> set rest. \<not> is_exchange e))
   \<and> waitForUrl (preview_world (http_cookie 303 [''_vercel_jwt=abc123'']) [http 500] (http 200))
        ''https://preview.example.com'' (Num 4) (Num 2000) (Some ''secret'') None ''/'' [] =
      Some (drop 3 (retried_run_trace [(''Cookie'', ''_vercel_jwt=abc123'')]))
   \<and> (\<exists>k es. drop 3 (retried_run_trace [(''Cookie'', ''_vercel_jwt=abc123'')]) = [] @ es
         \<and> length (filter is_exchange es) =
             (if js_lt (Num (of_nat k)) (calculateIterations (Num 4) (Num 2000)) then k + 1
              else k))
   \<and> length (filter is_exchange
               (drop 3 (retried_run_trace [(''Cookie'', ''_vercel_jwt=abc123'')]))) = 2"
proof -
  let ?inp = "short_inputs ''secret'' []"
  let ?w = "preview_world (http_cookie 303 [''_vercel_jwt=abc123'']) [http 500] (http 200)"
  let ?R = "retried_run_trace [(''Cookie'', ''_vercel_jwt=abc123'')]"
  have run: "run push_context ?inp ?w = Some ?R"
    by (simp add: run_eval retried_run_trace_def)
  have url: "waitForUrl ?w ''https://preview.example.com'' (Num 4) (Num 2000) (Some ''secret'')
      None ''/'' [] = Some (drop 3 ?R)"
    by (simp add: run_eval retried_run_trace_def)
  have ev: "1 < length ?R \<and> 7 < length ?R \<and> is_status_poll (?R ! 1)
      \<and> is_exchange (?R ! 3) \<and> is_exchange (?R ! 7)"
    by (simp add: retried_run_trace_def getPassword_request_def)
  have two: "length (filter is_exchange (drop 3 ?R)) = 2"
    by (simp add: retried_run_trace_def getPassword_request_def get_request_def)
  note d = exchange_in_every_attempt [of push_context ?inp ?w ?R 1 7 "''secret''" 1
      "''https://preview.example.com''" None "''/''" "Num 4" "Num 2000" "[]" "drop 3 ?R"]
  from d run ev have "(1 :: nat) < 7" by blast
  moreover from d have "\<exists>rest. snd (waitForUrl_try ?w 1 ''https://preview.example.com''
        (Some ''secret'') None ''/'') =
      Request (getPassword_request ''https://preview.example.com'' ''secret'') # rest
      \<and> (\<forall>e \<in> set rest. \<not> is_exchange e)"
    by simp
  moreover from d url have "\<exists>k es. drop 3 ?R = [] @ es
         \<and> length (filter is_exchange es) =
             (if js_lt (Num (of_nat k)) (calculateIterations (Num 4) (Num 2000)) then k + 1
              else k)"
    by auto
  ultimately show ?thesis using run url ev two by simp
qed

end
